theory Spec2Isabelle
  imports Main "HOL-Library.Char_ord" "HOL-Library.List_Lexorder" "HOL-Library.Sublist"
begin

section \<open>Data model (src/lib/database.ts)\<close>

text \<open>
  Times are milliseconds since the epoch, as \<open>Date.now()\<close> returns them; they and all
  other JavaScript numbers that occur (ids, the TTL, limit and offset) are modelled as
  unbounded integers. Text columns are strings ordered bytewise, which is the BINARY
  collation that \<open>ORDER BY net ASC\<close> uses.
\<close>

subsection \<open>The upstream entry: interface ApiLaunch\<close>

text \<open>The field \<open>type\<close> of a provider or mission is \<open>string | { id; name }\<close>.\<close>

datatype type_field = TypeString string | TypeObject int string

record api_status =
  st_id :: int
  st_name :: string
  st_abbrev :: string
  st_description :: string

record api_lsp =
  lsp_id :: int
  lsp_name :: string
  lsp_abbrev :: string
  lsp_type :: type_field

record api_configuration =
  cfg_id :: int
  cfg_name :: string
  cfg_full_name :: string
  cfg_variant :: string

record api_rocket =
  rk_id :: int
  rk_configuration :: "api_configuration option"

record api_mission =
  ms_id :: int
  ms_name :: string
  ms_description :: "string option"
  ms_type :: type_field

record api_image =
  img_id :: int
  img_name :: string
  img_image_url :: string
  img_thumbnail_url :: string
  img_credit :: string

record api_launch =
  api_id :: string
  api_name :: string
  api_net :: string
  api_window_start :: "string option"
  api_window_end :: "string option"
  api_status :: "api_status option"
  api_launch_service_provider :: "api_lsp option"
  api_rocket :: "api_rocket option"
  api_mission :: "api_mission option"
  api_image :: "api_image option"

subsection \<open>The stored row: table launches, interface LaunchRecord\<close>

text \<open>
  The columns of the interface that are optional are options here; \<open>created_at\<close> and
  \<open>updated_at\<close> are the two bookkeeping columns of the table.
\<close>

record launch_row =
  row_id :: string
  row_name :: string
  row_net :: string
  row_window_start :: "string option"
  row_window_end :: "string option"
  row_status_id :: int
  row_status_name :: string
  row_status_abbrev :: string
  row_status_description :: string
  row_lsp_id :: int
  row_lsp_name :: string
  row_lsp_abbrev :: string
  row_lsp_type :: string
  row_rocket_id :: int
  row_rocket_config_id :: int
  row_rocket_config_name :: string
  row_rocket_config_full_name :: string
  row_rocket_config_variant :: string
  row_mission_id :: int
  row_mission_name :: string
  row_mission_description :: "string option"
  row_mission_type :: string
  row_image_id :: "int option"
  row_image_name :: "string option"
  row_image_url :: "string option"
  row_image_thumbnail_url :: "string option"
  row_image_credit :: "string option"
  row_created_at :: int
  row_updated_at :: int

subsection \<open>The table cache_meta and the database\<close>

record cache_meta_row =
  last_updated :: int
  expires_at :: int

text \<open>
  The table \<open>launches\<close> is the list of its rows in rowid order, which is the order a
  scan of the table visits them in; \<open>cache_meta\<close> is a map from its primary key.
\<close>

record db =
  launches :: "launch_row list"
  cache_meta :: "string \<rightharpoonup> cache_meta_row"

datatype error =
  NetworkError
  | HttpError nat
  | BadBody
  | InvalidStructure
  | TypeError
  | InsertError string
  | MetaWriteError

section \<open>JavaScript helpers\<close>

text \<open>\<open>s || d\<close> on a string that is present: the empty string is falsy.\<close>

definition or_str :: "string \<Rightarrow> string \<Rightarrow> string" where
  "or_str s d = (if s = [] then d else s)"

text \<open>\<open>s || d\<close> on an optional string: undefined and the empty string are falsy.\<close>

definition or_opt :: "string option \<Rightarrow> string \<Rightarrow> string" where
  "or_opt s d = (case s of None \<Rightarrow> d | Some v \<Rightarrow> or_str v d)"

text \<open>\<open>s || null\<close> on an optional string.\<close>

definition or_null :: "string option \<Rightarrow> string option" where
  "or_null s = (case s of None \<Rightarrow> None | Some v \<Rightarrow> (if v = [] then None else Some v))"

text \<open>\<open>n || null\<close> on an optional number: zero is falsy.\<close>

definition num_or_null :: "int option \<Rightarrow> int option" where
  "num_or_null n = (case n of None \<Rightarrow> None | Some v \<Rightarrow> (if v = 0 then None else Some v))"

text \<open>\<open>n || 0\<close> on an optional number.\<close>

definition num_or_zero :: "int option \<Rightarrow> int" where
  "num_or_zero n = (case n of None \<Rightarrow> 0 | Some v \<Rightarrow> v)"

text \<open>
  \<open>typeof t === 'string' ? t : t?.name || 'Unknown'\<close> on the optional \<open>type\<close> field.
\<close>

definition type_name :: "type_field option \<Rightarrow> string" where
  "type_name t = (case t of
       None \<Rightarrow> ''Unknown''
     | Some (TypeString s) \<Rightarrow> s
     | Some (TypeObject i n) \<Rightarrow> or_str n ''Unknown'')"

text \<open>
  \<open>Array.prototype.slice(start, end)\<close> on integers: a negative index counts from the
  end, and both indices are clamped to the array.
\<close>

definition slice_index :: "nat \<Rightarrow> int \<Rightarrow> nat" where
  "slice_index n i = (if i < 0 then nat (max (int n + i) 0) else min (nat i) n)"

definition slice :: "'a list \<Rightarrow> int \<Rightarrow> int \<Rightarrow> 'a list" where
  "slice xs start end' =
     (let k = slice_index (length xs) start;
          final = slice_index (length xs) end'
      in take (final - k) (drop k xs))"

section \<open>Database operations (dbOperations)\<close>

subsection \<open>upsertLaunches\<close>

text \<open>The values bound to the INSERT OR REPLACE statement for one launch.\<close>

definition to_row :: "int \<Rightarrow> api_launch \<Rightarrow> launch_row" where
  "to_row now launch = \<lparr>
     row_id = api_id launch,
     row_name = api_name launch,
     row_net = api_net launch,
     row_window_start = Some (or_opt (api_window_start launch) (api_net launch)),
     row_window_end = Some (or_opt (api_window_end launch) (api_net launch)),
     row_status_id = num_or_zero (map_option st_id (api_status launch)),
     row_status_name = or_opt (map_option st_name (api_status launch)) ''Unknown'',
     row_status_abbrev = or_opt (map_option st_abbrev (api_status launch)) ''UNK'',
     row_status_description =
       or_opt (map_option st_description (api_status launch)) ''Unknown'',
     row_lsp_id = num_or_zero (map_option lsp_id (api_launch_service_provider launch)),
     row_lsp_name =
       or_opt (map_option lsp_name (api_launch_service_provider launch)) ''Unknown'',
     row_lsp_abbrev =
       or_opt (map_option lsp_abbrev (api_launch_service_provider launch)) ''UNK'',
     row_lsp_type = type_name (map_option lsp_type (api_launch_service_provider launch)),
     row_rocket_id = num_or_zero (map_option rk_id (api_rocket launch)),
     row_rocket_config_id =
       num_or_zero (map_option cfg_id (Option.bind (api_rocket launch) rk_configuration)),
     row_rocket_config_name =
       or_opt (map_option cfg_name (Option.bind (api_rocket launch) rk_configuration))
         ''Unknown'',
     row_rocket_config_full_name =
       or_opt (map_option cfg_full_name (Option.bind (api_rocket launch) rk_configuration))
         ''Unknown'',
     row_rocket_config_variant =
       or_opt (map_option cfg_variant (Option.bind (api_rocket launch) rk_configuration)) [],
     row_mission_id = num_or_zero (map_option ms_id (api_mission launch)),
     row_mission_name = or_opt (map_option ms_name (api_mission launch)) ''Unknown'',
     row_mission_description =
       or_null (Option.bind (api_mission launch) ms_description),
     row_mission_type = type_name (map_option ms_type (api_mission launch)),
     row_image_id = num_or_null (map_option img_id (api_image launch)),
     row_image_name = or_null (map_option img_name (api_image launch)),
     row_image_url = or_null (map_option img_image_url (api_image launch)),
     row_image_thumbnail_url = or_null (map_option img_thumbnail_url (api_image launch)),
     row_image_credit = or_null (map_option img_credit (api_image launch)),
     row_created_at = now,
     row_updated_at = now \<rparr>"

text \<open>
  INSERT OR REPLACE on the primary key \<open>id\<close>: a row with the same id is deleted, and
  the new row gets a fresh rowid, the largest of the table.
\<close>

definition insert_or_replace :: "launch_row \<Rightarrow> launch_row list \<Rightarrow> launch_row list" where
  "insert_or_replace r rows = filter (\<lambda>old. row_id old \<noteq> row_id r) rows @ [r]"

text \<open>
  The loop of the transaction. \<open>stmt.run\<close> may throw for a launch (the loop catches,
  logs and rethrows); which launches the storage engine refuses is the predicate
  \<open>rejects\<close> of the environment.
\<close>

fun insert_all ::
  "(api_launch \<Rightarrow> bool) \<Rightarrow> int \<Rightarrow> api_launch list \<Rightarrow> launch_row list \<Rightarrow> error + launch_row list"
where
  "insert_all rejects now [] rows = Inr rows"
| "insert_all rejects now (launch # rest) rows =
     (if rejects launch then Inl (InsertError (api_id launch))
      else insert_all rejects now rest (insert_or_replace (to_row now launch) rows))"

text \<open>
  The transaction commits the rows of the whole batch or, when the loop throws, rolls
  back and rethrows: the caller then continues with the database it had.
\<close>

definition upsertLaunches ::
  "(api_launch \<Rightarrow> bool) \<Rightarrow> int \<Rightarrow> api_launch list \<Rightarrow> db \<Rightarrow> error + db"
where
  "upsertLaunches rejects now batch d =
     (case insert_all rejects now batch (launches d) of
        Inl e \<Rightarrow> Inl e
      | Inr rows \<Rightarrow> Inr (d\<lparr>launches := rows\<rparr>))"

subsection \<open>getCachedLaunches\<close>

text \<open>
  \<open>SELECT * FROM launches ORDER BY net ASC LIMIT ?\<close>: the rows of a table scan, sorted
  by \<open>net\<close> alone with rows of equal \<open>net\<close> left in scan order, cut to the limit. A
  negative LIMIT is no limit.
\<close>

definition getCachedLaunches :: "int \<Rightarrow> db \<Rightarrow> launch_row list" where
  "getCachedLaunches limit d =
     (let ordered = sort_key row_net (launches d)
      in if limit < 0 then ordered else take (nat limit) ordered)"

subsection \<open>isCacheValid and updateCacheMetadata\<close>

definition isCacheValid :: "int \<Rightarrow> string \<Rightarrow> int \<Rightarrow> db \<Rightarrow> bool" where
  "isCacheValid now cacheKey ttlMinutes d =
     (case cache_meta d cacheKey of
        None \<Rightarrow> False
      | Some result \<Rightarrow> now < expires_at result)"

text \<open>
  The statement of \<open>updateCacheMetadata\<close> may be refused by the storage engine as any
  write may (\<open>refused\<close>); the table is then unchanged and the error propagates.
\<close>

definition updateCacheMetadata :: "bool \<Rightarrow> int \<Rightarrow> string \<Rightarrow> int \<Rightarrow> db \<Rightarrow> error + db" where
  "updateCacheMetadata refused now cacheKey ttlMinutes d =
     (let expiresAt = now + ttlMinutes * 60 * 1000
      in if refused then Inl MetaWriteError
         else Inr (d\<lparr>cache_meta :=
                (cache_meta d)(cacheKey \<mapsto> \<lparr>last_updated = now, expires_at = expiresAt\<rparr>)\<rparr>))"

subsection \<open>convertToApiFormat\<close>

definition to_api :: "launch_row \<Rightarrow> api_launch" where
  "to_api record = \<lparr>
     api_id = row_id record,
     api_name = row_name record,
     api_net = row_net record,
     api_window_start = Some (or_opt (row_window_start record) (row_net record)),
     api_window_end = Some (or_opt (row_window_end record) (row_net record)),
     api_status = Some \<lparr>
       st_id = row_status_id record,
       st_name = row_status_name record,
       st_abbrev = row_status_abbrev record,
       st_description = row_status_description record \<rparr>,
     api_launch_service_provider = Some \<lparr>
       lsp_id = row_lsp_id record,
       lsp_name = row_lsp_name record,
       lsp_abbrev = row_lsp_abbrev record,
       lsp_type = TypeString (row_lsp_type record) \<rparr>,
     api_rocket = Some \<lparr>
       rk_id = row_rocket_id record,
       rk_configuration = Some \<lparr>
         cfg_id = row_rocket_config_id record,
         cfg_name = row_rocket_config_name record,
         cfg_full_name = row_rocket_config_full_name record,
         cfg_variant = row_rocket_config_variant record \<rparr> \<rparr>,
     api_mission = Some \<lparr>
       ms_id = row_mission_id record,
       ms_name = row_mission_name record,
       ms_description = or_null (row_mission_description record),
       ms_type = TypeString (row_mission_type record) \<rparr>,
     api_image = (case num_or_null (row_image_id record) of
         None \<Rightarrow> None
       | Some i \<Rightarrow> Some \<lparr>
           img_id = i,
           img_name = or_opt (row_image_name record) [],
           img_image_url = or_opt (row_image_url record) [],
           img_thumbnail_url = or_opt (row_image_thumbnail_url record) [],
           img_credit = or_opt (row_image_credit record) [] \<rparr>) \<rparr>"

definition convertToApiFormat :: "launch_row list \<Rightarrow> api_launch list" where
  "convertToApiFormat records = map to_api records"

section \<open>The route handlers (src/app/api/launches/route.ts)\<close>

definition CACHE_KEY :: string where
  "CACHE_KEY = ''upcoming_launches''"

definition CACHE_TTL_MINUTES :: int where
  "CACHE_TTL_MINUTES = 30"

definition MAX_API_LIMIT :: int where
  "MAX_API_LIMIT = 100"

subsection \<open>The environment of one request\<close>

text \<open>
  What \<open>data.results\<close> can be once the body has been parsed: absent or null, the empty
  string, another value that is not an array (a boolean, a number, a non-empty string,
  an object), or an array of entries.
\<close>

datatype results_field =
  ResultsAbsent
  | ResultsEmptyString
  | ResultsNotArray
  | ResultsArray "api_launch list"

text \<open>
  The outcome of the single upstream round trip: \<open>fetch\<close> rejects, the status is not
  2xx, \<open>response.json()\<close> rejects or yields null (so that reading \<open>data.results\<close>
  throws), or a body is there.
\<close>

datatype upstream =
  FetchRejected
  | NotOk nat
  | BadJson
  | Body results_field

text \<open>
  Everything a handler reads from outside the database: the three readings of
  \<open>Date.now()\<close> (in \<open>isCacheValid\<close>, \<open>upsertLaunches\<close> and \<open>updateCacheMetadata\<close>), the
  upstream outcome, and which writes the storage engine refuses. Reads of the database
  are taken to succeed.
\<close>

record env =
  clock_valid :: int
  clock_upsert :: int
  clock_meta :: int
  upstream :: upstream
  rejects :: "api_launch \<Rightarrow> bool"
  meta_refused :: bool

subsection \<open>Responses\<close>

datatype source = Cache | Api | StaleCache | ManualRefresh

text \<open>
  The links \<open>next\<close> and \<open>previous\<close> are URLs \<open>/api/launches?limit=l&offset=o\<close>; the model
  keeps the pair \<open>(l, o)\<close>. \<open>fetched_at\<close>, a formatted wall-clock time, is left out;
  \<open>total\<close> stands for \<open>total_cached\<close>, \<open>total_fetched\<close> or \<open>total_refreshed\<close>.
\<close>

record envelope =
  count :: nat
  next_url :: "(int \<times> int) option"
  previous_url :: "(int \<times> int) option"
  results :: "api_launch list"
  cached :: bool
  source :: source
  ttl_minutes :: int
  warning :: "string option"
  total :: nat
  page_size :: int
  page_offset :: int

text \<open>A 200 response with its envelope, or a 500 response with its \<open>error\<close> text.\<close>

datatype response = Json envelope | ServerError string error

datatype event = CalledUpstream | WroteRecords | WroteMetadata

text \<open>
  What a handler leaves behind: the database, the effects in the order they happened,
  and the response.
\<close>

record outcome =
  db_after :: db
  events :: "event list"
  response :: response

subsection \<open>GET\<close>

text \<open>
  The two statements under "Cache the fresh data". The first is a transaction of its
  own; the second is a separate statement run after that transaction has committed.
  The result is the database and the effects so far, and the error if one was thrown.
\<close>

definition cache_fresh_data ::
  "env \<Rightarrow> api_launch list \<Rightarrow> db \<Rightarrow> db \<times> event list \<times> error option"
where
  "cache_fresh_data e batch d =
     (case upsertLaunches (rejects e) (clock_upsert e) batch d of
        Inl err \<Rightarrow> (d, [], Some err)
      | Inr d1 \<Rightarrow>
          (case updateCacheMetadata (meta_refused e) (clock_meta e) CACHE_KEY
                  CACHE_TTL_MINUTES d1 of
             Inl err \<Rightarrow> (d1, [WroteRecords], Some err)
           | Inr d2 \<Rightarrow> (d2, [WroteRecords, WroteMetadata], None)))"

text \<open>
  The body of the \<open>try\<close> block. \<open>Inl\<close> is a thrown error, with the database as it was
  when the error was thrown.
\<close>

definition GET_try :: "env \<Rightarrow> db \<Rightarrow> int \<Rightarrow> int \<Rightarrow> db \<times> event list \<times> (error + envelope)" where
  "GET_try e d limit offset =
     (if isCacheValid (clock_valid e) CACHE_KEY CACHE_TTL_MINUTES d then
        (let allCachedRecords = getCachedLaunches MAX_API_LIMIT d;
             totalCount = length allCachedRecords;
             paginatedRecords = slice allCachedRecords offset (offset + limit);
             cachedLaunches = convertToApiFormat paginatedRecords;
             hasNext = (offset + limit < int totalCount);
             hasPrevious = (offset > 0);
             nextUrl = (if hasNext then Some (limit, offset + limit) else None);
             previousUrl = (if hasPrevious then Some (limit, max 0 (offset - limit)) else None)
         in (d, [], Inr \<lparr>
               count = totalCount,
               next_url = nextUrl,
               previous_url = previousUrl,
               results = cachedLaunches,
               cached = True,
               source = Cache,
               ttl_minutes = CACHE_TTL_MINUTES,
               warning = None,
               total = totalCount,
               page_size = limit,
               page_offset = offset \<rparr>))
      else
        (case upstream e of
           FetchRejected \<Rightarrow> (d, [CalledUpstream], Inl NetworkError)
         | NotOk status \<Rightarrow> (d, [CalledUpstream], Inl (HttpError status))
         | BadJson \<Rightarrow> (d, [CalledUpstream], Inl BadBody)
         | Body ResultsAbsent \<Rightarrow> (d, [CalledUpstream], Inl InvalidStructure)
         | Body ResultsEmptyString \<Rightarrow> (d, [CalledUpstream], Inl InvalidStructure)
         | Body ResultsNotArray \<Rightarrow> (d, [CalledUpstream], Inl InvalidStructure)
         | Body (ResultsArray data_results) \<Rightarrow>
             (case (if length data_results > 0 then cache_fresh_data e data_results d
                    else (d, [], None)) of
                (d1, written, Some err) \<Rightarrow> (d1, CalledUpstream # written, Inl err)
              | (d1, written, None) \<Rightarrow>
                  (let totalCount = length data_results;
                       paginatedResults = slice data_results offset (offset + limit);
                       hasNext = (offset + limit < int totalCount);
                       hasPrevious = (offset > 0);
                       nextUrl = (if hasNext then Some (limit, offset + limit) else None);
                       previousUrl =
                         (if hasPrevious then Some (limit, max 0 (offset - limit)) else None)
                   in (d1, CalledUpstream # written, Inr \<lparr>
                         count = totalCount,
                         next_url = nextUrl,
                         previous_url = previousUrl,
                         results = paginatedResults,
                         cached = False,
                         source = Api,
                         ttl_minutes = CACHE_TTL_MINUTES,
                         warning = None,
                         total = totalCount,
                         page_size = limit,
                         page_offset = offset \<rparr>)))))"

text \<open>The \<open>catch\<close> block: the stale read, and the 500 response when nothing is stored.\<close>

definition GET_catch :: "error \<Rightarrow> db \<Rightarrow> int \<Rightarrow> int \<Rightarrow> response" where
  "GET_catch err d limit offset =
     (let allCachedRecords = getCachedLaunches MAX_API_LIMIT d
      in if length allCachedRecords > 0 then
           (let totalCount = length allCachedRecords;
                paginatedRecords = slice allCachedRecords offset (offset + limit);
                cachedLaunches = convertToApiFormat paginatedRecords;
                hasNext = (offset + limit < int totalCount);
                hasPrevious = (offset > 0);
                nextUrl = (if hasNext then Some (limit, offset + limit) else None);
                previousUrl =
                  (if hasPrevious then Some (limit, max 0 (offset - limit)) else None)
            in Json \<lparr>
                 count = totalCount,
                 next_url = nextUrl,
                 previous_url = previousUrl,
                 results = cachedLaunches,
                 cached = True,
                 source = StaleCache,
                 ttl_minutes = CACHE_TTL_MINUTES,
                 warning = Some ''External API unavailable, returning stale cache data'',
                 total = totalCount,
                 page_size = limit,
                 page_offset = offset \<rparr>)
         else ServerError ''Failed to fetch launch data'' err)"

definition GET :: "env \<Rightarrow> db \<Rightarrow> int \<Rightarrow> int \<Rightarrow> outcome" where
  "GET e d limit offset =
     (case GET_try e d limit offset of
        (d1, effects, Inr body) \<Rightarrow>
          \<lparr>db_after = d1, events = effects, response = Json body\<rparr>
      | (d1, effects, Inl err) \<Rightarrow>
          \<lparr>db_after = d1, events = effects, response = GET_catch err d1 limit offset\<rparr>)"

subsection \<open>POST\<close>

text \<open>
  There is no validity check and no shape check. A \<open>results\<close> that is absent, null or
  the empty string is falsy, so nothing is cached, and \<open>data.results?.length || 0\<close> and
  \<open>data.results?.slice(..) || []\<close> give 0 and the empty page. Any other value that is
  not an array makes the \<open>try\<close> block throw (\<open>slice\<close> is not a function, the value is
  not iterable, or the insert of a character is refused).
\<close>

definition POST :: "env \<Rightarrow> db \<Rightarrow> int \<Rightarrow> int \<Rightarrow> outcome" where
  "POST e d limit offset =
     (let refreshed = (\<lambda>d1 written data_results.
            (let totalCount = length data_results;
                 paginatedResults = slice data_results offset (offset + limit);
                 hasNext = (offset + limit < int totalCount);
                 hasPrevious = (offset > 0);
                 nextUrl = (if hasNext then Some (limit, offset + limit) else None);
                 previousUrl =
                   (if hasPrevious then Some (limit, max 0 (offset - limit)) else None)
             in \<lparr>db_after = d1, events = CalledUpstream # written, response = Json \<lparr>
                   count = totalCount,
                   next_url = nextUrl,
                   previous_url = previousUrl,
                   results = paginatedResults,
                   cached = False,
                   source = ManualRefresh,
                   ttl_minutes = CACHE_TTL_MINUTES,
                   warning = None,
                   total = totalCount,
                   page_size = limit,
                   page_offset = offset \<rparr>\<rparr>));
          failed = (\<lambda>d1 written err.
            \<lparr>db_after = d1, events = CalledUpstream # written,
             response = ServerError ''Failed to refresh cache'' err\<rparr>)
      in case upstream e of
           FetchRejected \<Rightarrow> failed d [] NetworkError
         | NotOk status \<Rightarrow> failed d [] (HttpError status)
         | BadJson \<Rightarrow> failed d [] BadBody
         | Body ResultsAbsent \<Rightarrow> refreshed d [] []
         | Body ResultsEmptyString \<Rightarrow> refreshed d [] []
         | Body ResultsNotArray \<Rightarrow> failed d [] TypeError
         | Body (ResultsArray data_results) \<Rightarrow>
             (case (if length data_results > 0 then cache_fresh_data e data_results d
                    else (d, [], None)) of
                (d1, written, Some err) \<Rightarrow> failed d1 written err
              | (d1, written, None) \<Rightarrow> refreshed d1 written data_results))"

section \<open>The histogram handler (src/unnamed/part_000)\<close>

text \<open>
  Two functions of the JavaScript runtime are parameters. \<open>getTime\<close> is
  \<open>new Date(s).getTime()\<close>, with \<open>None\<close> for a string that does not parse (NaN).
  \<open>plus7days\<close> is what \<open>date.setDate(date.getDate() + 7)\<close> does to the time of a date:
  seven calendar days later on the local clock of the process, which is \<open>WEEK_MS\<close>
  milliseconds later only where that clock does not change in between. Start and end
  of a bucket are kept as times rather than ISO strings, and the label, a formatted
  date, is left out.
\<close>

definition WEEK_MS :: int where
  "WEEK_MS = 7 * 24 * 60 * 60 * 1000"

record histogram_bucket =
  startDate :: int
  endDate :: int
  bucket_count :: nat
  launchIds :: "string list"

text \<open>
  The \<open>while (currentDate <= lastDate)\<close> loop, with its two variables \<open>buckets\<close> and
  \<open>currentDate\<close> as the last two arguments. \<open>None\<close> is a loop that does not end.
\<close>

partial_function (option) make_buckets ::
  "(int \<Rightarrow> int) \<Rightarrow> (api_launch \<Rightarrow> int) \<Rightarrow> api_launch list \<Rightarrow> int \<Rightarrow>
     histogram_bucket list \<Rightarrow> int \<Rightarrow> histogram_bucket list option"
where
  "make_buckets plus7days time sortedLaunches lastDate buckets currentDate =
     (if currentDate \<le> lastDate then
        make_buckets plus7days time sortedLaunches lastDate
          (buckets @
            [\<lparr>startDate = currentDate,
              endDate = plus7days currentDate,
              bucket_count =
                length (filter (\<lambda>launch. time launch \<ge> currentDate
                  \<and> time launch < plus7days currentDate) sortedLaunches),
              launchIds =
                map api_id (filter (\<lambda>launch. time launch \<ge> currentDate
                  \<and> time launch < plus7days currentDate) sortedLaunches)\<rparr>])
          (plus7days currentDate)
      else Some buckets)"

record histogram_response =
  buckets :: "histogram_bucket list"
  total_launches :: nat

text \<open>
  The time of a launch, once every \<open>net\<close> is known to parse.
\<close>

definition launch_time :: "(string \<Rightarrow> int option) \<Rightarrow> api_launch \<Rightarrow> int" where
  "launch_time getTime launch = (case getTime (api_net launch) of Some t \<Rightarrow> t | None \<Rightarrow> 0)"

text \<open>
  What the handler does: it answers, or some \<open>net\<close> does not parse, or the loop does
  not end. When some \<open>net\<close> does not parse the comparator of the sort returns NaN and the
  order of the result is left to the engine: the model stops there and says no more.
\<close>

datatype histogram_outcome =
  Histogram histogram_response
  | UnparsedNet
  | NoAnswer

text \<open>The sort of the source is stable, as \<open>sort_key\<close> is.\<close>

definition histogram ::
  "(string \<Rightarrow> int option) \<Rightarrow> (int \<Rightarrow> int) \<Rightarrow> db \<Rightarrow> histogram_outcome"
where
  "histogram getTime plus7days d =
     (let launchRecords = getCachedLaunches 100 d;
          launches = convertToApiFormat launchRecords
      in if length launches = 0 then Histogram \<lparr>buckets = [], total_launches = 0\<rparr>
         else if list_ex (\<lambda>launch. getTime (api_net launch) = None) launches
         then UnparsedNet
         else
           (let sortedLaunches = sort_key (launch_time getTime) launches;
                firstDate = launch_time getTime (hd sortedLaunches);
                lastDate = launch_time getTime (last sortedLaunches)
            in case make_buckets plus7days (launch_time getTime) sortedLaunches lastDate []
                      firstDate of
                 None \<Rightarrow> NoAnswer
               | Some built \<Rightarrow>
                   Histogram \<lparr>buckets = built, total_launches = length launches\<rparr>))"

section \<open>Definitions used to state the properties\<close>

subsection \<open>Stores and transactions\<close>

text \<open>The database after a call that may throw: a thrown write changes nothing.\<close>

definition store_after :: "db \<Rightarrow> error + db \<Rightarrow> db" where
  "store_after d r = (case r of Inl e \<Rightarrow> d | Inr d' \<Rightarrow> d')"

definition after_upsert :: "(api_launch \<Rightarrow> bool) \<Rightarrow> int \<Rightarrow> api_launch list \<Rightarrow> db \<Rightarrow> db" where
  "after_upsert rej now batch d = store_after d (upsertLaunches rej now batch d)"

text \<open>The loop of the transaction when no insert is refused.\<close>

fun replace_all :: "int \<Rightarrow> api_launch list \<Rightarrow> launch_row list \<Rightarrow> launch_row list" where
  "replace_all now [] rows = rows"
| "replace_all now (launch # rest) rows =
     replace_all now rest (insert_or_replace (to_row now launch) rows)"

text \<open>A row as the interface LaunchRecord sees it, without the two write timestamps.\<close>

definition without_timestamps :: "launch_row \<Rightarrow> launch_row" where
  "without_timestamps r = r\<lparr>row_created_at := 0, row_updated_at := 0\<rparr>"

text \<open>The launches the histogram handler starts from.\<close>

definition cached_launches :: "db \<Rightarrow> api_launch list" where
  "cached_launches d = convertToApiFormat (getCachedLaunches 100 d)"

text \<open>
  The buckets the loop builds from \<open>currentDate\<close> on: each starts where the one before
  it ends, the first at \<open>currentDate\<close>, and there are none once \<open>currentDate\<close> is past
  \<open>lastDate\<close>.
\<close>

fun week_chain ::
  "(int \<Rightarrow> int) \<Rightarrow> (api_launch \<Rightarrow> int) \<Rightarrow> api_launch list \<Rightarrow> int \<Rightarrow> int \<Rightarrow>
     histogram_bucket list \<Rightarrow> bool"
where
  "week_chain plus7days time sortedLaunches lastDate currentDate [] =
     (lastDate < currentDate)"
| "week_chain plus7days time sortedLaunches lastDate currentDate (bucket # rest) =
     (currentDate \<le> lastDate
      \<and> bucket =
          \<lparr>startDate = currentDate,
           endDate = plus7days currentDate,
           bucket_count =
             length (filter (\<lambda>launch. time launch \<ge> currentDate
               \<and> time launch < plus7days currentDate) sortedLaunches),
           launchIds =
             map api_id (filter (\<lambda>launch. time launch \<ge> currentDate
               \<and> time launch < plus7days currentDate) sortedLaunches)\<rparr>
      \<and> week_chain plus7days time sortedLaunches lastDate (plus7days currentDate) rest)"

subsection \<open>Classes of environments and responses\<close>

text \<open>The upstream round trip gives GET no array of entries.\<close>

fun upstream_failed :: "upstream \<Rightarrow> bool" where
  "upstream_failed (Body (ResultsArray batch)) = False"
| "upstream_failed other = True"

text \<open>An insert of the fetched batch is refused, so the transaction rolls back.\<close>

definition batch_refused :: "env \<Rightarrow> bool" where
  "batch_refused e =
     (case upstream e of Body (ResultsArray batch) \<Rightarrow> list_ex (rejects e) batch | other \<Rightarrow> False)"

text \<open>One of the two writes of a fetched batch fails (an empty batch is not written).\<close>

definition write_failed :: "env \<Rightarrow> bool" where
  "write_failed e =
     (case upstream e of
        Body (ResultsArray batch) \<Rightarrow>
          batch \<noteq> [] \<and> (list_ex (rejects e) batch \<or> meta_refused e)
      | other \<Rightarrow> False)"

text \<open>The upstream outcomes on which the \<open>try\<close> block of POST throws before any write.\<close>

fun refresh_throws :: "upstream \<Rightarrow> bool" where
  "refresh_throws FetchRejected = True"
| "refresh_throws (NotOk status) = True"
| "refresh_throws BadJson = True"
| "refresh_throws (Body ResultsNotArray) = True"
| "refresh_throws (Body other) = False"


subsection \<open>Two sentences of the specification, in its words\<close>

text \<open>
  Ties broken by identity, read as the spec's Identity (the external id, the primary
  key): of two rows with equal \<open>net\<close> the one with the smaller id comes first.
\<close>

definition ties_by_id :: "launch_row list \<Rightarrow> bool" where
  "ties_by_id rows =
     sorted_wrt (\<lambda>r s. row_net r = row_net s \<longrightarrow> row_id r \<le> row_id s) rows"

text \<open>Never a write to one store without the other.\<close>

definition write_through_paired :: "outcome \<Rightarrow> bool" where
  "write_through_paired out =
     ((WroteRecords \<in> set (events out)) = (WroteMetadata \<in> set (events out)))"

subsection \<open>Concrete inputs\<close>

definition db0 :: db where
  "db0 = \<lparr>launches = [], cache_meta = Map.empty\<rparr>"

definition sample_launch :: "string \<Rightarrow> string \<Rightarrow> api_launch" where
  "sample_launch i n = \<lparr>api_id = i, api_name = ''Test flight'', api_net = n,
     api_window_start = None, api_window_end = None, api_status = None,
     api_launch_service_provider = None, api_rocket = None, api_mission = None,
     api_image = None\<rparr>"

text \<open>Two launches with the same \<open>net\<close>, the one with the larger id first.\<close>

definition tie_batch :: "api_launch list" where
  "tie_batch = [sample_launch ''b'' ''2025-01-01T00:00:00Z'',
                sample_launch ''a'' ''2025-01-01T00:00:00Z'']"

definition launch_a :: api_launch where
  "launch_a = sample_launch ''a'' ''2025-01-01T00:00:00Z''"

definition launch_b :: api_launch where
  "launch_b = sample_launch ''b'' ''2025-01-08T00:00:00Z''"

text \<open>
  Upstream delivers the two launches and every write is accepted; upstream is
  unreachable; the metadata statement is refused.
\<close>

definition env_up :: env where
  "env_up = \<lparr>clock_valid = 1000, clock_upsert = 1001, clock_meta = 1002,
     upstream = Body (ResultsArray [launch_b, launch_a]),
     rejects = (\<lambda>launch. False), meta_refused = False\<rparr>"

definition env_down :: env where
  "env_down = env_up\<lparr>upstream := FetchRejected\<rparr>"

definition env_meta_refused :: env where
  "env_meta_refused = env_up\<lparr>meta_refused := True\<rparr>"

text \<open>Two stored rows, without metadata and with metadata that is valid at time 1000.\<close>

definition db_stale :: db where
  "db_stale = \<lparr>launches = [to_row 0 launch_b, to_row 0 launch_a], cache_meta = Map.empty\<rparr>"

definition db_fresh :: db where
  "db_fresh = db_stale\<lparr>cache_meta := [CACHE_KEY \<mapsto> \<lparr>last_updated = 0, expires_at = 1800000\<rparr>]\<rparr>"

text \<open>The times of the sample dates, in milliseconds.\<close>

definition sample_getTime :: "string \<Rightarrow> int option" where
  "sample_getTime = map_of [(''2025-01-01T00:00:00Z'', 1735689600000),
                            (''2025-01-08T00:00:00Z'', 1736294400000),
                            (''2025-03-05T12:00:00Z'', 1741176000000),
                            (''2025-03-12T11:30:00Z'', 1741779000000)]"

text \<open>Seven calendar days on a clock that never changes, as in UTC.\<close>

definition utc_week :: "int \<Rightarrow> int" where
  "utc_week t = t + WEEK_MS"

text \<open>
  Seven calendar days on the clock of New York around 9 March 2025, when it is set
  forward by an hour at 07:00 UTC: a week that spans that moment is an hour shorter.
\<close>

definition new_york_week :: "int \<Rightarrow> int" where
  "new_york_week t =
     (if t < 1741503600000 \<and> 1741503600000 \<le> t + WEEK_MS - 3600000
      then t + WEEK_MS - 3600000 else t + WEEK_MS)"

text \<open>Two launches a week apart on the clock of New York, either side of that change.\<close>

definition db_march :: db where
  "db_march = \<lparr>launches = [to_row 0 (sample_launch ''p'' ''2025-03-05T12:00:00Z''),
                           to_row 0 (sample_launch ''q'' ''2025-03-12T11:30:00Z'')],
               cache_meta = Map.empty\<rparr>"

text \<open>
  A store of 101 launches: a first refresh brings 100 of them, a later one brings one
  more. The ids are x, xx, xxx and so on.
\<close>

definition big_launches :: "api_launch list" where
  "big_launches =
     map (\<lambda>n. sample_launch (replicate (Suc n) CHR ''x'') ''2025-01-01T00:00:00Z'') [0..<101]"

definition db_big :: db where
  "db_big = after_upsert (\<lambda>launch. False) 2000 (drop 100 big_launches)
              (after_upsert (\<lambda>launch. False) 1000 (take 100 big_launches) db0)"

section \<open>Properties of the cache metadata\<close>

text \<open>
  C1. \<open>isCacheValid\<close> is true exactly when a row for the key exists and the current time
  is strictly before the stored \<open>expires_at\<close>. Its result does not depend on the TTL
  passed at check time. After \<open>updateCacheMetadata\<close> at time \<open>t\<close> with TTL \<open>ttl\<close> the check
  holds at \<open>t\<close> itself when \<open>ttl\<close> is positive, holds at a time \<open>now\<close> exactly when
  \<open>now < t + ttl * 60 * 1000\<close>, and fails once \<open>now\<close> has reached the stored expiry.
\<close>

theorem isCacheValid_stored_expiry:
  fixes d d' :: db
  shows "(isCacheValid now key ttl d \<longleftrightarrow>
            (\<exists>row. cache_meta d key = Some row \<and> now < expires_at row))
       \<and> isCacheValid now key ttl d = isCacheValid now key ttl' d
       \<and> (updateCacheMetadata False t key ttl d = Inr d' \<longrightarrow>
            (0 < ttl \<longrightarrow> isCacheValid t key ttl' d')
          \<and> (isCacheValid now key ttl' d' \<longleftrightarrow> now < t + ttl * 60 * 1000)
          \<and> (\<forall>row. cache_meta d' key = Some row \<longrightarrow> expires_at row \<le> now \<longrightarrow>
                \<not> isCacheValid now key ttl' d'))
       \<and> (\<forall>row. cache_meta d key = Some row \<longrightarrow> expires_at row \<le> now \<longrightarrow>
                \<not> isCacheValid now key ttl d)"
  by (auto simp: isCacheValid_def updateCacheMetadata_def split: option.splits)

theorem isCacheValid_stored_expiry_witness:
  "isCacheValid 1000 CACHE_KEY 30
       (db0\<lparr>cache_meta := (cache_meta db0)(CACHE_KEY \<mapsto> \<lparr>last_updated = 1000, expires_at = 1801000\<rparr>)\<rparr>)
   \<and> isCacheValid 1800999 CACHE_KEY 1
       (db0\<lparr>cache_meta := (cache_meta db0)(CACHE_KEY \<mapsto> \<lparr>last_updated = 1000, expires_at = 1801000\<rparr>)\<rparr>)
   \<and> \<not> isCacheValid 1801000 CACHE_KEY 30
       (db0\<lparr>cache_meta := (cache_meta db0)(CACHE_KEY \<mapsto> \<lparr>last_updated = 1000, expires_at = 1801000\<rparr>)\<rparr>)"
proof -
  let ?d' = "db0\<lparr>cache_meta := (cache_meta db0)(CACHE_KEY \<mapsto> \<lparr>last_updated = 1000, expires_at = 1801000\<rparr>)\<rparr>"
  have touch: "updateCacheMetadata False 1000 CACHE_KEY 30 db0 = Inr ?d'"
    by (simp add: updateCacheMetadata_def)
  have stored: "cache_meta ?d' CACHE_KEY = Some \<lparr>last_updated = 1000, expires_at = 1801000\<rparr>"
    by simp
  from isCacheValid_stored_expiry [of 1000 CACHE_KEY 30 db0 30 1000 ?d'] touch
  have a: "isCacheValid 1000 CACHE_KEY 30 ?d'" by simp
  from isCacheValid_stored_expiry [of 1800999 CACHE_KEY 30 db0 1 1000 ?d'] touch
  have b: "isCacheValid 1800999 CACHE_KEY 1 ?d'" by simp
  from isCacheValid_stored_expiry [of 1801000 CACHE_KEY 30 ?d' 30 1000 ?d'] stored
  have c: "\<not> isCacheValid 1801000 CACHE_KEY 30 ?d'" by simp
  from a b c show ?thesis by simp
qed

section \<open>Properties of the record store\<close>

lemma row_id_to_row [simp]: "row_id (to_row now launch) = api_id launch"
  by (simp add: to_row_def)

lemma row_net_to_row [simp]: "row_net (to_row now launch) = api_net launch"
  by (simp add: to_row_def)

lemma without_timestamps_to_row:
  "without_timestamps (to_row t1 launch) = without_timestamps (to_row t2 launch)"
  by (simp add: to_row_def without_timestamps_def)

lemma row_id_without_timestamps [simp]: "row_id (without_timestamps r) = row_id r"
  by (simp add: without_timestamps_def)

lemma row_net_without_timestamps [simp]: "row_net (without_timestamps r) = row_net r"
  by (simp add: without_timestamps_def)

lemma insert_all_replace_all:
  "insert_all rej now batch rows =
     (case find rej batch of
        Some launch \<Rightarrow> Inl (InsertError (api_id launch))
      | None \<Rightarrow> Inr (replace_all now batch rows))"
  by (induction batch arbitrary: rows) (auto split: option.splits)

text \<open>
  A batch leaves the rows of the other ids where they were and puts its own rows after
  them, in an order that depends on the batch alone.
\<close>

lemma replace_all_split:
  "replace_all now batch rows =
     filter (\<lambda>r. row_id r \<notin> api_id ` set batch) rows @ replace_all now batch []"
proof (induction batch arbitrary: rows)
  case Nil
  show ?case by simp
next
  case (Cons launch rest)
  have "replace_all now (launch # rest) rows =
          filter (\<lambda>r. row_id r \<notin> api_id ` set rest)
            (insert_or_replace (to_row now launch) rows) @ replace_all now rest []"
    using Cons.IH [of "insert_or_replace (to_row now launch) rows"] by simp
  moreover have "replace_all now (launch # rest) [] =
          filter (\<lambda>r. row_id r \<notin> api_id ` set rest) [to_row now launch]
            @ replace_all now rest []"
    using Cons.IH [of "[to_row now launch]"] by (simp add: insert_or_replace_def)
  moreover have "filter (\<lambda>r. row_id r \<notin> api_id ` set rest) (insert_or_replace (to_row now launch) rows)
      = filter (\<lambda>r. row_id r \<notin> api_id ` set (launch # rest)) rows
        @ filter (\<lambda>r. row_id r \<notin> api_id ` set rest) [to_row now launch]"
    unfolding insert_or_replace_def by (induction rows) auto
  ultimately show ?case by (simp only: append_assoc)
qed

lemma row_ids_replace_all:
  "row_id ` set (replace_all now batch rows) \<subseteq> row_id ` set rows \<union> api_id ` set batch"
proof (induction batch arbitrary: rows)
  case Nil
  show ?case by simp
next
  case (Cons launch rest)
  have "row_id ` set (insert_or_replace (to_row now launch) rows)
          \<subseteq> row_id ` set rows \<union> {api_id launch}"
    by (auto simp: insert_or_replace_def)
  with Cons.IH [of "insert_or_replace (to_row now launch) rows"] show ?case
    by auto
qed

text \<open>The primary key stays a key under \<open>upsertLaunches\<close>.\<close>

lemma replace_all_keeps_ids_distinct:
  "distinct (map row_id rows) \<Longrightarrow> distinct (map row_id (replace_all now batch rows))"
proof (induction batch arbitrary: rows)
  case Nil
  then show ?case by simp
next
  case (Cons launch rest)
  from Cons.prems have "distinct (map row_id (insert_or_replace (to_row now launch) rows))"
    by (auto simp: insert_or_replace_def distinct_map_filter)
  with Cons.IH show ?case by simp
qed

lemma replace_all_twice:
  "replace_all t2 batch (replace_all t1 batch rows) = replace_all t2 batch rows"
proof -
  have "filter (\<lambda>r. row_id r \<notin> api_id ` set batch) (replace_all t1 batch []) = []"
    using row_ids_replace_all [of t1 batch "[]"] by (auto simp: filter_empty_conv)
  then have "filter (\<lambda>r. row_id r \<notin> api_id ` set batch) (replace_all t1 batch rows)
      = filter (\<lambda>r. row_id r \<notin> api_id ` set batch) rows"
    by (subst replace_all_split) simp
  then show ?thesis
    by (subst replace_all_split) (simp add: replace_all_split [of t2 batch rows])
qed

lemma replace_all_without_timestamps:
  "map without_timestamps rows1 = map without_timestamps rows2 \<Longrightarrow>
   map without_timestamps (replace_all t1 batch rows1)
     = map without_timestamps (replace_all t2 batch rows2)"
proof (induction batch arbitrary: rows1 rows2)
  case Nil
  then show ?case by simp
next
  case (Cons launch rest)
  have "map without_timestamps (filter (\<lambda>old. row_id old \<noteq> api_id launch) rows1)
      = filter (\<lambda>old. row_id old \<noteq> api_id launch) (map without_timestamps rows1)"
    by (simp add: filter_map comp_def)
  moreover have "map without_timestamps (filter (\<lambda>old. row_id old \<noteq> api_id launch) rows2)
      = filter (\<lambda>old. row_id old \<noteq> api_id launch) (map without_timestamps rows2)"
    by (simp add: filter_map comp_def)
  ultimately have "map without_timestamps (insert_or_replace (to_row t1 launch) rows1)
      = map without_timestamps (insert_or_replace (to_row t2 launch) rows2)"
    using Cons.prems by (simp add: insert_or_replace_def without_timestamps_to_row [of t1 launch t2])
  then show ?case using Cons.IH by simp
qed

text \<open>
  C8. Applying \<open>upsertLaunches\<close> with the same batch a second time, at any later reading
  \<open>t2\<close> of the clock, leaves the database that one application at \<open>t2\<close> leaves; against
  the first application at \<open>t1\<close>, the rows are the same, in the same order, in every
  column but the two write timestamps, and the metadata table is the same. A batch that
  is refused is refused both times and changes nothing.
\<close>

theorem upsertLaunches_idempotent:
  "after_upsert rej t2 batch (after_upsert rej t1 batch d) = after_upsert rej t2 batch d
   \<and> map without_timestamps (launches (after_upsert rej t2 batch (after_upsert rej t1 batch d)))
       = map without_timestamps (launches (after_upsert rej t1 batch d))
   \<and> cache_meta (after_upsert rej t2 batch (after_upsert rej t1 batch d))
       = cache_meta (after_upsert rej t1 batch d)"
proof (cases "find rej batch")
  case None
  then show ?thesis
    by (simp add: after_upsert_def upsertLaunches_def store_after_def insert_all_replace_all
        replace_all_twice
        replace_all_without_timestamps [of "launches d" "launches d" t2 batch t1])
next
  case (Some launch)
  then show ?thesis
    by (simp add: after_upsert_def upsertLaunches_def store_after_def insert_all_replace_all)
qed

lemma filter_take_prefix: "prefix (filter P (take n xs)) (filter P xs)"
proof -
  have "filter P xs = filter P (take n xs) @ filter P (drop n xs)"
    by (metis append_take_drop_id filter_append)
  then show ?thesis by (simp add: prefix_def)
qed

text \<open>
  C9, as the code has it. For a limit that is not negative, \<open>getCachedLaunches\<close> returns
  \<open>min limit n\<close> of the \<open>n\<close> stored rows, so at most \<open>limit\<close>, with \<open>net\<close> non-decreasing.
  The query has no second sort key: rows of equal \<open>net\<close> come out in the order the table
  holds them (rowid order, the order of their last write), whatever their ids are.
\<close>

theorem getCachedLaunches_ordered:
  "0 \<le> limit \<Longrightarrow>
     length (getCachedLaunches limit d) = min (nat limit) (length (launches d))
   \<and> length (getCachedLaunches limit d) \<le> nat limit
   \<and> set (getCachedLaunches limit d) \<subseteq> set (launches d)
   \<and> sorted (map row_net (getCachedLaunches limit d))
   \<and> prefix (filter (\<lambda>r. row_net r = n) (getCachedLaunches limit d))
            (filter (\<lambda>r. row_net r = n) (launches d))"
proof -
  assume "0 \<le> limit"
  then have eq: "getCachedLaunches limit d = take (nat limit) (sort_key row_net (launches d))"
    by (simp add: getCachedLaunches_def)
  have "sorted (map row_net (take (nat limit) (sort_key row_net (launches d))))"
    by (simp add: take_map [symmetric])
  moreover have "prefix (filter (\<lambda>r. row_net r = n) (take (nat limit) (sort_key row_net (launches d))))
            (filter (\<lambda>r. row_net r = n) (launches d))"
    using filter_take_prefix [of "\<lambda>r. row_net r = n" "nat limit" "sort_key row_net (launches d)"]
    by (simp add: sort_key_stable)
  moreover have "set (take (nat limit) (sort_key row_net (launches d))) \<subseteq> set (launches d)"
    using set_take_subset [of "nat limit" "sort_key row_net (launches d)"] by simp
  ultimately show ?thesis
    unfolding eq by simp
qed

lemma tie_rows:
  "getCachedLaunches 100 (after_upsert (\<lambda>launch. False) 0 tie_batch db0)
     = [to_row 0 (sample_launch ''b'' ''2025-01-01T00:00:00Z''),
        to_row 0 (sample_launch ''a'' ''2025-01-01T00:00:00Z'')]"
  by (simp add: getCachedLaunches_def after_upsert_def store_after_def upsertLaunches_def
      tie_batch_def db0_def insert_or_replace_def sample_launch_def)

theorem getCachedLaunches_ordered_witness:
  "length (getCachedLaunches 100 (after_upsert (\<lambda>launch. False) 0 tie_batch db0)) = 2
   \<and> sorted (map row_net (getCachedLaunches 100 (after_upsert (\<lambda>launch. False) 0 tie_batch db0)))
   \<and> prefix (filter (\<lambda>r. row_net r = ''2025-01-01T00:00:00Z'')
               (getCachedLaunches 100 (after_upsert (\<lambda>launch. False) 0 tie_batch db0)))
             (filter (\<lambda>r. row_net r = ''2025-01-01T00:00:00Z'')
               (launches (after_upsert (\<lambda>launch. False) 0 tie_batch db0)))"
proof -
  have len: "length (launches (after_upsert (\<lambda>launch. False) 0 tie_batch db0)) = 2"
    by (simp add: after_upsert_def store_after_def upsertLaunches_def tie_batch_def db0_def
        insert_or_replace_def sample_launch_def)
  have "(0::int) \<le> 100" by simp
  from getCachedLaunches_ordered [OF this,
      of "after_upsert (\<lambda>launch. False) 0 tie_batch db0" "''2025-01-01T00:00:00Z''"] len
  show ?thesis by simp
qed

text \<open>
  C9 as stated fails: two launches with the same \<open>net\<close>, written in the order b, a, are
  listed in the order b, a.
\<close>

theorem getCachedLaunches_ties_counterexample:
  "map row_id (getCachedLaunches 100 (after_upsert (\<lambda>launch. False) 0 tie_batch db0)) = [''b'', ''a'']
   \<and> map row_net (getCachedLaunches 100 (after_upsert (\<lambda>launch. False) 0 tie_batch db0))
       = [''2025-01-01T00:00:00Z'', ''2025-01-01T00:00:00Z'']
   \<and> \<not> ties_by_id (getCachedLaunches 100 (after_upsert (\<lambda>launch. False) 0 tie_batch db0))"
  unfolding tie_rows by (simp add: ties_by_id_def sample_launch_def)

section \<open>Properties of the handlers\<close>

lemma take_min_length: "take (min n (length ys)) ys = take n ys"
  by (cases "n \<le> length ys") (simp_all add: min_def)

lemma slice_window:
  "0 \<le> offset \<Longrightarrow> 0 \<le> limit \<Longrightarrow>
     slice xs offset (offset + limit) = take (nat limit) (drop (nat offset) xs)"
proof -
  assume a: "0 \<le> offset" "0 \<le> limit"
  show ?thesis
  proof (cases "nat offset \<le> length xs")
    case True
    with a have "min (nat (offset + limit)) (length xs) - min (nat offset) (length xs)
        = min (nat limit) (length xs - nat offset)"
      by (auto simp: min_def nat_add_distrib)
    with a True show ?thesis
      using take_min_length [of "nat limit" "drop (nat offset) xs"]
      by (simp add: slice_def slice_index_def Let_def min_absorb1)
  next
    case False
    with a show ?thesis
      by (simp add: slice_def slice_index_def Let_def)
  qed
qed

lemma slice_Nil [simp]: "slice [] start end' = []"
  by (simp add: slice_def)


lemma getCachedLaunches_empty_iff: "getCachedLaunches MAX_API_LIMIT d = [] \<longleftrightarrow> launches d = []"
  by (cases "launches d") (auto simp: getCachedLaunches_def MAX_API_LIMIT_def Let_def)

text \<open>The fields of a converted entry, column by column.\<close>

lemma to_api_columns:
  "a = to_api r \<Longrightarrow>
     api_id a = row_id r
     \<and> api_name a = row_name r
     \<and> api_net a = row_net r
     \<and> api_window_start a =
         Some (case row_window_start r of
                 None \<Rightarrow> row_net r
               | Some s \<Rightarrow> if s = [] then row_net r else s)
     \<and> api_window_end a =
         Some (case row_window_end r of
                 None \<Rightarrow> row_net r
               | Some s \<Rightarrow> if s = [] then row_net r else s)
     \<and> api_status a =
         Some \<lparr>st_id = row_status_id r, st_name = row_status_name r,
               st_abbrev = row_status_abbrev r,
               st_description = row_status_description r\<rparr>
     \<and> api_launch_service_provider a =
         Some \<lparr>lsp_id = row_lsp_id r, lsp_name = row_lsp_name r,
               lsp_abbrev = row_lsp_abbrev r, lsp_type = TypeString (row_lsp_type r)\<rparr>
     \<and> api_rocket a =
         Some \<lparr>rk_id = row_rocket_id r,
               rk_configuration =
                 Some \<lparr>cfg_id = row_rocket_config_id r,
                       cfg_name = row_rocket_config_name r,
                       cfg_full_name = row_rocket_config_full_name r,
                       cfg_variant = row_rocket_config_variant r\<rparr>\<rparr>
     \<and> api_mission a =
         Some \<lparr>ms_id = row_mission_id r, ms_name = row_mission_name r,
               ms_description =
                 (case row_mission_description r of
                    None \<Rightarrow> None
                  | Some s \<Rightarrow> if s = [] then None else Some s),
               ms_type = TypeString (row_mission_type r)\<rparr>
     \<and> api_image a =
         (case row_image_id r of
            None \<Rightarrow> None
          | Some n \<Rightarrow>
              if n = 0 then None
              else Some \<lparr>img_id = n,
                     img_name = (case row_image_name r of None \<Rightarrow> [] | Some s \<Rightarrow> s),
                     img_image_url = (case row_image_url r of None \<Rightarrow> [] | Some s \<Rightarrow> s),
                     img_thumbnail_url =
                       (case row_image_thumbnail_url r of None \<Rightarrow> [] | Some s \<Rightarrow> s),
                     img_credit = (case row_image_credit r of None \<Rightarrow> [] | Some s \<Rightarrow> s)\<rparr>)"
  by (simp add: to_api_def or_opt_def or_str_def or_null_def num_or_null_def
      split: option.splits)

lemma convertToApiFormat_columns:
  "i < length rows \<Longrightarrow>
     api_id (convertToApiFormat rows ! i) = row_id (rows ! i)
     \<and> api_name (convertToApiFormat rows ! i) = row_name (rows ! i)
     \<and> api_net (convertToApiFormat rows ! i) = row_net (rows ! i)
     \<and> api_window_start (convertToApiFormat rows ! i) =
         Some (case row_window_start (rows ! i) of
                 None \<Rightarrow> row_net (rows ! i)
               | Some s \<Rightarrow> if s = [] then row_net (rows ! i) else s)
     \<and> api_window_end (convertToApiFormat rows ! i) =
         Some (case row_window_end (rows ! i) of
                 None \<Rightarrow> row_net (rows ! i)
               | Some s \<Rightarrow> if s = [] then row_net (rows ! i) else s)
     \<and> api_status (convertToApiFormat rows ! i) =
         Some \<lparr>st_id = row_status_id (rows ! i), st_name = row_status_name (rows ! i),
               st_abbrev = row_status_abbrev (rows ! i),
               st_description = row_status_description (rows ! i)\<rparr>
     \<and> api_launch_service_provider (convertToApiFormat rows ! i) =
         Some \<lparr>lsp_id = row_lsp_id (rows ! i), lsp_name = row_lsp_name (rows ! i),
               lsp_abbrev = row_lsp_abbrev (rows ! i), lsp_type = TypeString (row_lsp_type (rows ! i))\<rparr>
     \<and> api_rocket (convertToApiFormat rows ! i) =
         Some \<lparr>rk_id = row_rocket_id (rows ! i),
               rk_configuration =
                 Some \<lparr>cfg_id = row_rocket_config_id (rows ! i),
                       cfg_name = row_rocket_config_name (rows ! i),
                       cfg_full_name = row_rocket_config_full_name (rows ! i),
                       cfg_variant = row_rocket_config_variant (rows ! i)\<rparr>\<rparr>
     \<and> api_mission (convertToApiFormat rows ! i) =
         Some \<lparr>ms_id = row_mission_id (rows ! i), ms_name = row_mission_name (rows ! i),
               ms_description =
                 (case row_mission_description (rows ! i) of
                    None \<Rightarrow> None
                  | Some s \<Rightarrow> if s = [] then None else Some s),
               ms_type = TypeString (row_mission_type (rows ! i))\<rparr>
     \<and> api_image (convertToApiFormat rows ! i) =
         (case row_image_id (rows ! i) of
            None \<Rightarrow> None
          | Some n \<Rightarrow>
              if n = 0 then None
              else Some \<lparr>img_id = n,
                     img_name = (case row_image_name (rows ! i) of None \<Rightarrow> [] | Some s \<Rightarrow> s),
                     img_image_url = (case row_image_url (rows ! i) of None \<Rightarrow> [] | Some s \<Rightarrow> s),
                     img_thumbnail_url =
                       (case row_image_thumbnail_url (rows ! i) of None \<Rightarrow> [] | Some s \<Rightarrow> s),
                     img_credit = (case row_image_credit (rows ! i) of None \<Rightarrow> [] | Some s \<Rightarrow> s)\<rparr>)"
proof -
  assume "i < length rows"
  then have "convertToApiFormat rows ! i = to_api (rows ! i)"
    by (simp add: convertToApiFormat_def)
  then show ?thesis by (rule to_api_columns)
qed

lemma count_list_insort_key:
  "count_list (insort_key f y ys) x = count_list (y # ys) x"
  by (induction ys) auto

lemma count_list_sort_key: "count_list (sort_key f xs) x = count_list xs x"
  by (induction xs) (simp_all add: count_list_insort_key)

text \<open>
  What the query reads: as many rows as the limit allows, each of them a stored row
  and none more often than it is stored, all rows when they fit, otherwise rows whose
  \<open>net\<close> is at most that of every row left out, in ascending order of \<open>net\<close>.
\<close>

lemma getCachedLaunches_read:
  "0 \<le> limit \<Longrightarrow>
     length (getCachedLaunches limit d) = min (nat limit) (length (launches d))
   \<and> (\<forall>r. count_list (getCachedLaunches limit d) r \<le> count_list (launches d) r)
   \<and> (length (launches d) \<le> nat limit \<longrightarrow>
        (\<forall>r. count_list (getCachedLaunches limit d) r = count_list (launches d) r))
   \<and> (\<forall>s \<in> set (getCachedLaunches limit d).
        \<forall>r. count_list (getCachedLaunches limit d) r < count_list (launches d) r \<longrightarrow>
          row_net s \<le> row_net r)
   \<and> sorted (map row_net (getCachedLaunches limit d))"
proof -
  assume "0 \<le> limit"
  let ?all = "sort_key row_net (launches d)"
  let ?n = "nat limit"
  from \<open>0 \<le> limit\<close> have eq: "getCachedLaunches limit d = take ?n ?all"
    by (simp add: getCachedLaunches_def)
  have split: "\<And>r. count_list (launches d) r
      = count_list (take ?n ?all) r + count_list (drop ?n ?all) r"
  proof -
    fix r
    have "count_list ?all r = count_list (take ?n ?all @ drop ?n ?all) r" by simp
    then show "count_list (launches d) r
        = count_list (take ?n ?all) r + count_list (drop ?n ?all) r"
      by (simp add: count_list_sort_key del: append_take_drop_id)
  qed
  have ordered: "sorted (map row_net (take ?n ?all @ drop ?n ?all))" by simp
  have least: "\<forall>s \<in> set (take ?n ?all).
      \<forall>r. count_list (take ?n ?all) r < count_list (launches d) r \<longrightarrow> row_net s \<le> row_net r"
  proof (intro ballI allI impI)
    fix s r
    assume s: "s \<in> set (take ?n ?all)"
      and "count_list (take ?n ?all) r < count_list (launches d) r"
    with split [of r] have "count_list (drop ?n ?all) r \<noteq> 0" by simp
    then have "r \<in> set (drop ?n ?all)" by (simp add: count_list_0_iff)
    with s ordered show "row_net s \<le> row_net r"
      unfolding map_append sorted_append by auto
  qed
  have whole: "length (launches d) \<le> ?n \<longrightarrow>
      (\<forall>r. count_list (take ?n ?all) r = count_list (launches d) r)"
    by (simp add: count_list_sort_key)
  have "sorted (map row_net (take ?n ?all))"
    by (simp add: take_map [symmetric])
  with least whole split show ?thesis
    unfolding eq by (simp add: min.commute)
qed

text \<open>
  C5. With a valid cache, GET reads from the store: 100 rows or all of them if there
  are fewer, each a stored row and none more often than it is stored, all stored rows
  when they are at most 100 and otherwise rows whose \<open>net\<close> is at most that of every row
  left out, in ascending order of \<open>net\<close>. It cuts the page out of that list in the
  process (for an offset and a limit that are not negative the page is
  \<open>take limit (drop offset rows)\<close>) and answers with one entry per row of the page, in
  the order of the page, each entry carrying the columns of its row as
  \<open>convertToApiFormat\<close> nests them; \<open>count\<close> is the length of the whole read and the source
  is \<open>cache\<close>. It calls nothing else and leaves the database as it was.
\<close>

theorem GET_hit:
  assumes "isCacheValid (clock_valid e) CACHE_KEY CACHE_TTL_MINUTES d"
  shows "db_after (GET e d limit offset) = d
       \<and> events (GET e d limit offset) = []
       \<and> (case response (GET e d limit offset) of
            ServerError message err \<Rightarrow> False
          | Json body \<Rightarrow>
              results body =
                convertToApiFormat (slice (getCachedLaunches 100 d) offset (offset + limit))
            \<and> length (results body)
                = length (slice (getCachedLaunches 100 d) offset (offset + limit))
            \<and> (\<forall>i < length (slice (getCachedLaunches 100 d) offset (offset + limit)).
                 api_id (results body ! i) = row_id (slice (getCachedLaunches 100 d) offset (offset + limit) ! i)
                 \<and> api_name (results body ! i) = row_name (slice (getCachedLaunches 100 d) offset (offset + limit) ! i)
                 \<and> api_net (results body ! i) = row_net (slice (getCachedLaunches 100 d) offset (offset + limit) ! i)
                 \<and> api_window_start (results body ! i) =
                     Some (case row_window_start (slice (getCachedLaunches 100 d) offset (offset + limit) ! i) of
                             None \<Rightarrow> row_net (slice (getCachedLaunches 100 d) offset (offset + limit) ! i)
                           | Some s \<Rightarrow> if s = [] then row_net (slice (getCachedLaunches 100 d) offset (offset + limit) ! i) else s)
                 \<and> api_window_end (results body ! i) =
                     Some (case row_window_end (slice (getCachedLaunches 100 d) offset (offset + limit) ! i) of
                             None \<Rightarrow> row_net (slice (getCachedLaunches 100 d) offset (offset + limit) ! i)
                           | Some s \<Rightarrow> if s = [] then row_net (slice (getCachedLaunches 100 d) offset (offset + limit) ! i) else s)
                 \<and> api_status (results body ! i) =
                     Some \<lparr>st_id = row_status_id (slice (getCachedLaunches 100 d) offset (offset + limit) ! i), st_name = row_status_name (slice (getCachedLaunches 100 d) offset (offset + limit) ! i),
                           st_abbrev = row_status_abbrev (slice (getCachedLaunches 100 d) offset (offset + limit) ! i),
                           st_description = row_status_description (slice (getCachedLaunches 100 d) offset (offset + limit) ! i)\<rparr>
                 \<and> api_launch_service_provider (results body ! i) =
                     Some \<lparr>lsp_id = row_lsp_id (slice (getCachedLaunches 100 d) offset (offset + limit) ! i), lsp_name = row_lsp_name (slice (getCachedLaunches 100 d) offset (offset + limit) ! i),
                           lsp_abbrev = row_lsp_abbrev (slice (getCachedLaunches 100 d) offset (offset + limit) ! i), lsp_type = TypeString (row_lsp_type (slice (getCachedLaunches 100 d) offset (offset + limit) ! i))\<rparr>
                 \<and> api_rocket (results body ! i) =
                     Some \<lparr>rk_id = row_rocket_id (slice (getCachedLaunches 100 d) offset (offset + limit) ! i),
                           rk_configuration =
                             Some \<lparr>cfg_id = row_rocket_config_id (slice (getCachedLaunches 100 d) offset (offset + limit) ! i),
                                   cfg_name = row_rocket_config_name (slice (getCachedLaunches 100 d) offset (offset + limit) ! i),
                                   cfg_full_name = row_rocket_config_full_name (slice (getCachedLaunches 100 d) offset (offset + limit) ! i),
                                   cfg_variant = row_rocket_config_variant (slice (getCachedLaunches 100 d) offset (offset + limit) ! i)\<rparr>\<rparr>
                 \<and> api_mission (results body ! i) =
                     Some \<lparr>ms_id = row_mission_id (slice (getCachedLaunches 100 d) offset (offset + limit) ! i), ms_name = row_mission_name (slice (getCachedLaunches 100 d) offset (offset + limit) ! i),
                           ms_description =
                             (case row_mission_description (slice (getCachedLaunches 100 d) offset (offset + limit) ! i) of
                                None \<Rightarrow> None
                              | Some s \<Rightarrow> if s = [] then None else Some s),
                           ms_type = TypeString (row_mission_type (slice (getCachedLaunches 100 d) offset (offset + limit) ! i))\<rparr>
                 \<and> api_image (results body ! i) =
                     (case row_image_id (slice (getCachedLaunches 100 d) offset (offset + limit) ! i) of
                        None \<Rightarrow> None
                      | Some n \<Rightarrow>
                          if n = 0 then None
                          else Some \<lparr>img_id = n,
                                 img_name = (case row_image_name (slice (getCachedLaunches 100 d) offset (offset + limit) ! i) of None \<Rightarrow> [] | Some s \<Rightarrow> s),
                                 img_image_url = (case row_image_url (slice (getCachedLaunches 100 d) offset (offset + limit) ! i) of None \<Rightarrow> [] | Some s \<Rightarrow> s),
                                 img_thumbnail_url =
                                   (case row_image_thumbnail_url (slice (getCachedLaunches 100 d) offset (offset + limit) ! i) of None \<Rightarrow> [] | Some s \<Rightarrow> s),
                                 img_credit = (case row_image_credit (slice (getCachedLaunches 100 d) offset (offset + limit) ! i) of None \<Rightarrow> [] | Some s \<Rightarrow> s)\<rparr>))
            \<and> count body = length (getCachedLaunches 100 d)
            \<and> source body = Cache
            \<and> cached body
            \<and> warning body = None)
       \<and> length (getCachedLaunches 100 d) = min 100 (length (launches d))
       \<and> length (getCachedLaunches 100 d) \<le> 100
       \<and> (\<forall>r. count_list (getCachedLaunches 100 d) r \<le> count_list (launches d) r)
       \<and> (length (launches d) \<le> 100 \<longrightarrow>
            (\<forall>r. count_list (getCachedLaunches 100 d) r = count_list (launches d) r))
       \<and> (\<forall>s \<in> set (getCachedLaunches 100 d).
            \<forall>r. count_list (getCachedLaunches 100 d) r < count_list (launches d) r \<longrightarrow>
              row_net s \<le> row_net r)
       \<and> sorted (map row_net (getCachedLaunches 100 d))
       \<and> (0 \<le> offset \<and> 0 \<le> limit \<longrightarrow>
            slice (getCachedLaunches 100 d) offset (offset + limit)
              = take (nat limit) (drop (nat offset) (getCachedLaunches 100 d)))"
proof -
  let ?read = "getCachedLaunches 100 d"
  let ?page = "slice ?read offset (offset + limit)"
  have unchanged: "db_after (GET e d limit offset) = d"
    and quiet: "events (GET e d limit offset) = []"
    using assms by (simp_all add: GET_def GET_try_def Let_def)
  from assms obtain body where out: "response (GET e d limit offset) = Json body"
    and page: "results body = convertToApiFormat ?page"
    and rest: "count body = length ?read" "source body = Cache" "cached body"
      "warning body = None"
    by (simp add: GET_def GET_try_def Let_def MAX_API_LIMIT_def)
  have len: "length (results body) = length ?page"
    by (simp add: page convertToApiFormat_def)
  have cols: "\<forall>i < length ?page.
      api_id (results body ! i) = row_id (?page ! i)
      \<and> api_name (results body ! i) = row_name (?page ! i)
      \<and> api_net (results body ! i) = row_net (?page ! i)
      \<and> api_window_start (results body ! i) =
          Some (case row_window_start (?page ! i) of
                  None \<Rightarrow> row_net (?page ! i)
                | Some s \<Rightarrow> if s = [] then row_net (?page ! i) else s)
      \<and> api_window_end (results body ! i) =
          Some (case row_window_end (?page ! i) of
                  None \<Rightarrow> row_net (?page ! i)
                | Some s \<Rightarrow> if s = [] then row_net (?page ! i) else s)
      \<and> api_status (results body ! i) =
          Some \<lparr>st_id = row_status_id (?page ! i), st_name = row_status_name (?page ! i),
                st_abbrev = row_status_abbrev (?page ! i),
                st_description = row_status_description (?page ! i)\<rparr>
      \<and> api_launch_service_provider (results body ! i) =
          Some \<lparr>lsp_id = row_lsp_id (?page ! i), lsp_name = row_lsp_name (?page ! i),
                lsp_abbrev = row_lsp_abbrev (?page ! i), lsp_type = TypeString (row_lsp_type (?page ! i))\<rparr>
      \<and> api_rocket (results body ! i) =
          Some \<lparr>rk_id = row_rocket_id (?page ! i),
                rk_configuration =
                  Some \<lparr>cfg_id = row_rocket_config_id (?page ! i),
                        cfg_name = row_rocket_config_name (?page ! i),
                        cfg_full_name = row_rocket_config_full_name (?page ! i),
                        cfg_variant = row_rocket_config_variant (?page ! i)\<rparr>\<rparr>
      \<and> api_mission (results body ! i) =
          Some \<lparr>ms_id = row_mission_id (?page ! i), ms_name = row_mission_name (?page ! i),
                ms_description =
                  (case row_mission_description (?page ! i) of
                     None \<Rightarrow> None
                   | Some s \<Rightarrow> if s = [] then None else Some s),
                ms_type = TypeString (row_mission_type (?page ! i))\<rparr>
      \<and> api_image (results body ! i) =
          (case row_image_id (?page ! i) of
             None \<Rightarrow> None
           | Some n \<Rightarrow>
               if n = 0 then None
               else Some \<lparr>img_id = n,
                      img_name = (case row_image_name (?page ! i) of None \<Rightarrow> [] | Some s \<Rightarrow> s),
                      img_image_url = (case row_image_url (?page ! i) of None \<Rightarrow> [] | Some s \<Rightarrow> s),
                      img_thumbnail_url =
                        (case row_image_thumbnail_url (?page ! i) of None \<Rightarrow> [] | Some s \<Rightarrow> s),
                      img_credit = (case row_image_credit (?page ! i) of None \<Rightarrow> [] | Some s \<Rightarrow> s)\<rparr>)"
    unfolding page by (intro allI impI) (rule convertToApiFormat_columns)
  have inner: "case response (GET e d limit offset) of
            ServerError message err \<Rightarrow> False
          | Json body \<Rightarrow>
              results body = convertToApiFormat ?page
            \<and> length (results body) = length ?page
            \<and> (\<forall>i < length ?page.
                 api_id (results body ! i) = row_id (?page ! i)
                 \<and> api_name (results body ! i) = row_name (?page ! i)
                 \<and> api_net (results body ! i) = row_net (?page ! i)
                 \<and> api_window_start (results body ! i) =
                     Some (case row_window_start (?page ! i) of
                             None \<Rightarrow> row_net (?page ! i)
                           | Some s \<Rightarrow> if s = [] then row_net (?page ! i) else s)
                 \<and> api_window_end (results body ! i) =
                     Some (case row_window_end (?page ! i) of
                             None \<Rightarrow> row_net (?page ! i)
                           | Some s \<Rightarrow> if s = [] then row_net (?page ! i) else s)
                 \<and> api_status (results body ! i) =
                     Some \<lparr>st_id = row_status_id (?page ! i), st_name = row_status_name (?page ! i),
                           st_abbrev = row_status_abbrev (?page ! i),
                           st_description = row_status_description (?page ! i)\<rparr>
                 \<and> api_launch_service_provider (results body ! i) =
                     Some \<lparr>lsp_id = row_lsp_id (?page ! i), lsp_name = row_lsp_name (?page ! i),
                           lsp_abbrev = row_lsp_abbrev (?page ! i), lsp_type = TypeString (row_lsp_type (?page ! i))\<rparr>
                 \<and> api_rocket (results body ! i) =
                     Some \<lparr>rk_id = row_rocket_id (?page ! i),
                           rk_configuration =
                             Some \<lparr>cfg_id = row_rocket_config_id (?page ! i),
                                   cfg_name = row_rocket_config_name (?page ! i),
                                   cfg_full_name = row_rocket_config_full_name (?page ! i),
                                   cfg_variant = row_rocket_config_variant (?page ! i)\<rparr>\<rparr>
                 \<and> api_mission (results body ! i) =
                     Some \<lparr>ms_id = row_mission_id (?page ! i), ms_name = row_mission_name (?page ! i),
                           ms_description =
                             (case row_mission_description (?page ! i) of
                                None \<Rightarrow> None
                              | Some s \<Rightarrow> if s = [] then None else Some s),
                           ms_type = TypeString (row_mission_type (?page ! i))\<rparr>
                 \<and> api_image (results body ! i) =
                     (case row_image_id (?page ! i) of
                        None \<Rightarrow> None
                      | Some n \<Rightarrow>
                          if n = 0 then None
                          else Some \<lparr>img_id = n,
                                 img_name = (case row_image_name (?page ! i) of None \<Rightarrow> [] | Some s \<Rightarrow> s),
                                 img_image_url = (case row_image_url (?page ! i) of None \<Rightarrow> [] | Some s \<Rightarrow> s),
                                 img_thumbnail_url =
                                   (case row_image_thumbnail_url (?page ! i) of None \<Rightarrow> [] | Some s \<Rightarrow> s),
                                 img_credit = (case row_image_credit (?page ! i) of None \<Rightarrow> [] | Some s \<Rightarrow> s)\<rparr>))
            \<and> count body = length ?read
            \<and> source body = Cache
            \<and> cached body
            \<and> warning body = None"
    unfolding out response.case by (intro conjI page len cols rest)
  have "(0::int) \<le> 100" by simp
  from getCachedLaunches_read [OF this, of d]
  have size: "length ?read = min 100 (length (launches d))"
    and part: "\<forall>r. count_list ?read r \<le> count_list (launches d) r"
    and whole: "length (launches d) \<le> 100 \<longrightarrow>
      (\<forall>r. count_list ?read r = count_list (launches d) r)"
    and least: "\<forall>s \<in> set ?read.
      \<forall>r. count_list ?read r < count_list (launches d) r \<longrightarrow> row_net s \<le> row_net r"
    and ordered: "sorted (map row_net ?read)"
    by simp_all
  from size have bound: "length ?read \<le> 100" by simp
  have window: "0 \<le> offset \<and> 0 \<le> limit \<longrightarrow>
      ?page = take (nat limit) (drop (nat offset) ?read)"
    by (simp add: slice_window)
  show ?thesis
    by (intro conjI unchanged quiet inner size bound part whole least ordered window)
qed


lemma replace_all_distinct:
  "distinct (map api_id batch) \<Longrightarrow>
     replace_all now batch rows =
       filter (\<lambda>r. row_id r \<notin> api_id ` set batch) rows @ map (to_row now) batch"
proof -
  assume "distinct (map api_id batch)"
  then have "replace_all now batch [] = map (to_row now) batch"
  proof (induction batch)
    case Nil
    show ?case by simp
  next
    case (Cons launch rest)
    have "replace_all now (launch # rest) [] =
            filter (\<lambda>r. row_id r \<notin> api_id ` set rest) [to_row now launch]
              @ replace_all now rest []"
      using replace_all_split [of now rest "[to_row now launch]"]
      by (simp add: insert_or_replace_def)
    with Cons show ?case by simp
  qed
  then show ?thesis
    using replace_all_split [of now batch rows] by simp
qed

lemma replace_all_Cons_empty:
  "replace_all now (launch # rest) [] =
     filter (\<lambda>r. row_id r \<notin> api_id ` set rest) [to_row now launch] @ replace_all now rest []"
  using replace_all_split [of now rest "[to_row now launch]"]
  by (simp add: insert_or_replace_def)

lemma row_ids_replace_all_empty:
  "row_id ` set (replace_all now batch []) = api_id ` set batch"
proof (induction batch)
  case Nil
  show ?case by simp
next
  case (Cons launch rest)
  then show ?case
    unfolding replace_all_Cons_empty by auto
qed

lemma replace_all_covers:
  "launch \<in> set batch \<Longrightarrow> \<exists>r \<in> set (replace_all now batch rows). row_id r = api_id launch"
proof -
  assume "launch \<in> set batch"
  then have "api_id launch \<in> row_id ` set (replace_all now batch [])"
    by (simp add: row_ids_replace_all_empty)
  then show ?thesis
    by (subst replace_all_split) auto
qed


lemma insert_all_accepts:
  "\<not> list_ex rej batch \<Longrightarrow> insert_all rej now batch rows = Inr (replace_all now batch rows)"
  by (induction batch arbitrary: rows) auto

lemma insert_all_refuses:
  "list_ex rej batch \<Longrightarrow> \<exists>err. insert_all rej now batch rows = Inl err"
  by (induction batch arbitrary: rows) auto

lemma cache_fresh_data_ok:
  "\<not> list_ex (rejects e) batch \<Longrightarrow> \<not> meta_refused e \<Longrightarrow>
     cache_fresh_data e batch d =
       (d\<lparr>launches := replace_all (clock_upsert e) batch (launches d),
          cache_meta := (cache_meta d)(CACHE_KEY \<mapsto>
             \<lparr>last_updated = clock_meta e,
              expires_at = clock_meta e + CACHE_TTL_MINUTES * 60 * 1000\<rparr>)\<rparr>,
        [WroteRecords, WroteMetadata], None)"
  by (simp add: cache_fresh_data_def upsertLaunches_def updateCacheMetadata_def
      insert_all_accepts Let_def)

lemma cache_fresh_data_refused:
  "list_ex (rejects e) batch \<Longrightarrow> \<exists>err. cache_fresh_data e batch d = (d, [], Some err)"
  using insert_all_refuses [of "rejects e" batch "clock_upsert e" "launches d"]
  by (auto simp: cache_fresh_data_def upsertLaunches_def)

lemma cache_fresh_data_meta_refused:
  "\<not> list_ex (rejects e) batch \<Longrightarrow> meta_refused e \<Longrightarrow>
     cache_fresh_data e batch d =
       (d\<lparr>launches := replace_all (clock_upsert e) batch (launches d)\<rparr>,
        [WroteRecords], Some MetaWriteError)"
  by (simp add: cache_fresh_data_def upsertLaunches_def updateCacheMetadata_def
      insert_all_accepts Let_def)

text \<open>The values bound to the statement, column by column.\<close>

lemma to_row_columns:
  "r = to_row now launch \<Longrightarrow>
     row_id r = api_id launch
     \<and> row_name r = api_name launch
     \<and> row_net r = api_net launch
     \<and> row_window_start r =
         Some (case api_window_start launch of
                 None \<Rightarrow> api_net launch
               | Some s \<Rightarrow> if s = [] then api_net launch else s)
     \<and> row_window_end r =
         Some (case api_window_end launch of
                 None \<Rightarrow> api_net launch
               | Some s \<Rightarrow> if s = [] then api_net launch else s)
     \<and> row_status_id r = (case api_status launch of None \<Rightarrow> 0 | Some s \<Rightarrow> st_id s)
     \<and> row_status_name r =
         (case api_status launch of
            None \<Rightarrow> ''Unknown''
          | Some s \<Rightarrow> if st_name s = [] then ''Unknown'' else st_name s)
     \<and> row_status_abbrev r =
         (case api_status launch of
            None \<Rightarrow> ''UNK''
          | Some s \<Rightarrow> if st_abbrev s = [] then ''UNK'' else st_abbrev s)
     \<and> row_status_description r =
         (case api_status launch of
            None \<Rightarrow> ''Unknown''
          | Some s \<Rightarrow> if st_description s = [] then ''Unknown'' else st_description s)
     \<and> row_lsp_id r =
         (case api_launch_service_provider launch of None \<Rightarrow> 0 | Some p \<Rightarrow> lsp_id p)
     \<and> row_lsp_name r =
         (case api_launch_service_provider launch of
            None \<Rightarrow> ''Unknown''
          | Some p \<Rightarrow> if lsp_name p = [] then ''Unknown'' else lsp_name p)
     \<and> row_lsp_abbrev r =
         (case api_launch_service_provider launch of
            None \<Rightarrow> ''UNK''
          | Some p \<Rightarrow> if lsp_abbrev p = [] then ''UNK'' else lsp_abbrev p)
     \<and> row_lsp_type r =
         (case api_launch_service_provider launch of
            None \<Rightarrow> ''Unknown''
          | Some p \<Rightarrow>
              (case lsp_type p of
                 TypeString s \<Rightarrow> s
               | TypeObject n name \<Rightarrow> if name = [] then ''Unknown'' else name))
     \<and> row_rocket_id r = (case api_rocket launch of None \<Rightarrow> 0 | Some k \<Rightarrow> rk_id k)
     \<and> row_rocket_config_id r =
         (case api_rocket launch of
            None \<Rightarrow> 0
          | Some k \<Rightarrow> (case rk_configuration k of None \<Rightarrow> 0 | Some c \<Rightarrow> cfg_id c))
     \<and> row_rocket_config_name r =
         (case api_rocket launch of
            None \<Rightarrow> ''Unknown''
          | Some k \<Rightarrow>
              (case rk_configuration k of
                 None \<Rightarrow> ''Unknown''
               | Some c \<Rightarrow> if cfg_name c = [] then ''Unknown'' else cfg_name c))
     \<and> row_rocket_config_full_name r =
         (case api_rocket launch of
            None \<Rightarrow> ''Unknown''
          | Some k \<Rightarrow>
              (case rk_configuration k of
                 None \<Rightarrow> ''Unknown''
               | Some c \<Rightarrow> if cfg_full_name c = [] then ''Unknown'' else cfg_full_name c))
     \<and> row_rocket_config_variant r =
         (case api_rocket launch of
            None \<Rightarrow> []
          | Some k \<Rightarrow> (case rk_configuration k of None \<Rightarrow> [] | Some c \<Rightarrow> cfg_variant c))
     \<and> row_mission_id r = (case api_mission launch of None \<Rightarrow> 0 | Some m \<Rightarrow> ms_id m)
     \<and> row_mission_name r =
         (case api_mission launch of
            None \<Rightarrow> ''Unknown''
          | Some m \<Rightarrow> if ms_name m = [] then ''Unknown'' else ms_name m)
     \<and> row_mission_description r =
         (case api_mission launch of
            None \<Rightarrow> None
          | Some m \<Rightarrow>
              (case ms_description m of
                 None \<Rightarrow> None
               | Some s \<Rightarrow> if s = [] then None else Some s))
     \<and> row_mission_type r =
         (case api_mission launch of
            None \<Rightarrow> ''Unknown''
          | Some m \<Rightarrow>
              (case ms_type m of
                 TypeString s \<Rightarrow> s
               | TypeObject n name \<Rightarrow> if name = [] then ''Unknown'' else name))
     \<and> row_image_id r =
         (case api_image launch of
            None \<Rightarrow> None
          | Some g \<Rightarrow> if img_id g = 0 then None else Some (img_id g))
     \<and> row_image_name r =
         (case api_image launch of
            None \<Rightarrow> None
          | Some g \<Rightarrow> if img_name g = [] then None else Some (img_name g))
     \<and> row_image_url r =
         (case api_image launch of
            None \<Rightarrow> None
          | Some g \<Rightarrow> if img_image_url g = [] then None else Some (img_image_url g))
     \<and> row_image_thumbnail_url r =
         (case api_image launch of
            None \<Rightarrow> None
          | Some g \<Rightarrow> if img_thumbnail_url g = [] then None else Some (img_thumbnail_url g))
     \<and> row_image_credit r =
         (case api_image launch of
            None \<Rightarrow> None
          | Some g \<Rightarrow> if img_credit g = [] then None else Some (img_credit g))
     \<and> row_created_at r = now
     \<and> row_updated_at r = now"
  by (simp add: to_row_def or_opt_def or_str_def or_null_def num_or_null_def num_or_zero_def
      type_name_def split: option.splits type_field.splits)

text \<open>Of several launches with one id in a batch, the last one is stored.\<close>

lemma replace_all_last_wins:
  "i < length batch \<Longrightarrow>
   \<forall>j. i < j \<and> j < length batch \<longrightarrow> api_id (batch ! j) \<noteq> api_id (batch ! i) \<Longrightarrow>
   to_row now (batch ! i) \<in> set (replace_all now batch rows)"
proof (induction batch arbitrary: i rows)
  case Nil
  then show ?case by simp
next
  case (Cons launch rest)
  show ?case
  proof (cases i)
    case 0
    with Cons.prems have "api_id launch \<notin> api_id ` set rest"
      by (force simp: in_set_conv_nth)
    moreover have "to_row now launch \<in> set (insert_or_replace (to_row now launch) rows)"
      by (simp add: insert_or_replace_def)
    ultimately have "to_row now launch \<in> set (replace_all now rest
        (insert_or_replace (to_row now launch) rows))"
      by (subst replace_all_split) simp
    with 0 show ?thesis by simp
  next
    case (Suc k)
    with Cons.prems have "k < length rest"
      "\<forall>j. k < j \<and> j < length rest \<longrightarrow> api_id (rest ! j) \<noteq> api_id (rest ! k)"
      by force+
    from Cons.IH [OF this] Suc show ?thesis by simp
  qed
qed

lemma replace_all_stores_columns:
  "i < length batch \<Longrightarrow>
   \<forall>j. i < j \<and> j < length batch \<longrightarrow> api_id (batch ! j) \<noteq> api_id (batch ! i) \<Longrightarrow>
   \<exists>r \<in> set (replace_all now batch rows).
     row_id r = api_id (batch ! i)
     \<and> row_name r = api_name (batch ! i)
     \<and> row_net r = api_net (batch ! i)
     \<and> row_window_start r =
         Some (case api_window_start (batch ! i) of
                 None \<Rightarrow> api_net (batch ! i)
               | Some s \<Rightarrow> if s = [] then api_net (batch ! i) else s)
     \<and> row_window_end r =
         Some (case api_window_end (batch ! i) of
                 None \<Rightarrow> api_net (batch ! i)
               | Some s \<Rightarrow> if s = [] then api_net (batch ! i) else s)
     \<and> row_status_id r = (case api_status (batch ! i) of None \<Rightarrow> 0 | Some s \<Rightarrow> st_id s)
     \<and> row_status_name r =
         (case api_status (batch ! i) of
            None \<Rightarrow> ''Unknown''
          | Some s \<Rightarrow> if st_name s = [] then ''Unknown'' else st_name s)
     \<and> row_status_abbrev r =
         (case api_status (batch ! i) of
            None \<Rightarrow> ''UNK''
          | Some s \<Rightarrow> if st_abbrev s = [] then ''UNK'' else st_abbrev s)
     \<and> row_status_description r =
         (case api_status (batch ! i) of
            None \<Rightarrow> ''Unknown''
          | Some s \<Rightarrow> if st_description s = [] then ''Unknown'' else st_description s)
     \<and> row_lsp_id r =
         (case api_launch_service_provider (batch ! i) of None \<Rightarrow> 0 | Some p \<Rightarrow> lsp_id p)
     \<and> row_lsp_name r =
         (case api_launch_service_provider (batch ! i) of
            None \<Rightarrow> ''Unknown''
          | Some p \<Rightarrow> if lsp_name p = [] then ''Unknown'' else lsp_name p)
     \<and> row_lsp_abbrev r =
         (case api_launch_service_provider (batch ! i) of
            None \<Rightarrow> ''UNK''
          | Some p \<Rightarrow> if lsp_abbrev p = [] then ''UNK'' else lsp_abbrev p)
     \<and> row_lsp_type r =
         (case api_launch_service_provider (batch ! i) of
            None \<Rightarrow> ''Unknown''
          | Some p \<Rightarrow>
              (case lsp_type p of
                 TypeString s \<Rightarrow> s
               | TypeObject n name \<Rightarrow> if name = [] then ''Unknown'' else name))
     \<and> row_rocket_id r = (case api_rocket (batch ! i) of None \<Rightarrow> 0 | Some k \<Rightarrow> rk_id k)
     \<and> row_rocket_config_id r =
         (case api_rocket (batch ! i) of
            None \<Rightarrow> 0
          | Some k \<Rightarrow> (case rk_configuration k of None \<Rightarrow> 0 | Some c \<Rightarrow> cfg_id c))
     \<and> row_rocket_config_name r =
         (case api_rocket (batch ! i) of
            None \<Rightarrow> ''Unknown''
          | Some k \<Rightarrow>
              (case rk_configuration k of
                 None \<Rightarrow> ''Unknown''
               | Some c \<Rightarrow> if cfg_name c = [] then ''Unknown'' else cfg_name c))
     \<and> row_rocket_config_full_name r =
         (case api_rocket (batch ! i) of
            None \<Rightarrow> ''Unknown''
          | Some k \<Rightarrow>
              (case rk_configuration k of
                 None \<Rightarrow> ''Unknown''
               | Some c \<Rightarrow> if cfg_full_name c = [] then ''Unknown'' else cfg_full_name c))
     \<and> row_rocket_config_variant r =
         (case api_rocket (batch ! i) of
            None \<Rightarrow> []
          | Some k \<Rightarrow> (case rk_configuration k of None \<Rightarrow> [] | Some c \<Rightarrow> cfg_variant c))
     \<and> row_mission_id r = (case api_mission (batch ! i) of None \<Rightarrow> 0 | Some m \<Rightarrow> ms_id m)
     \<and> row_mission_name r =
         (case api_mission (batch ! i) of
            None \<Rightarrow> ''Unknown''
          | Some m \<Rightarrow> if ms_name m = [] then ''Unknown'' else ms_name m)
     \<and> row_mission_description r =
         (case api_mission (batch ! i) of
            None \<Rightarrow> None
          | Some m \<Rightarrow>
              (case ms_description m of
                 None \<Rightarrow> None
               | Some s \<Rightarrow> if s = [] then None else Some s))
     \<and> row_mission_type r =
         (case api_mission (batch ! i) of
            None \<Rightarrow> ''Unknown''
          | Some m \<Rightarrow>
              (case ms_type m of
                 TypeString s \<Rightarrow> s
               | TypeObject n name \<Rightarrow> if name = [] then ''Unknown'' else name))
     \<and> row_image_id r =
         (case api_image (batch ! i) of
            None \<Rightarrow> None
          | Some g \<Rightarrow> if img_id g = 0 then None else Some (img_id g))
     \<and> row_image_name r =
         (case api_image (batch ! i) of
            None \<Rightarrow> None
          | Some g \<Rightarrow> if img_name g = [] then None else Some (img_name g))
     \<and> row_image_url r =
         (case api_image (batch ! i) of
            None \<Rightarrow> None
          | Some g \<Rightarrow> if img_image_url g = [] then None else Some (img_image_url g))
     \<and> row_image_thumbnail_url r =
         (case api_image (batch ! i) of
            None \<Rightarrow> None
          | Some g \<Rightarrow> if img_thumbnail_url g = [] then None else Some (img_thumbnail_url g))
     \<and> row_image_credit r =
         (case api_image (batch ! i) of
            None \<Rightarrow> None
          | Some g \<Rightarrow> if img_credit g = [] then None else Some (img_credit g))
     \<and> row_created_at r = now
     \<and> row_updated_at r = now"
proof -
  assume "i < length batch"
    "\<forall>j. i < j \<and> j < length batch \<longrightarrow> api_id (batch ! j) \<noteq> api_id (batch ! i)"
  then have stored: "to_row now (batch ! i) \<in> set (replace_all now batch rows)"
    by (rule replace_all_last_wins)
  from stored show ?thesis
    by (rule rev_bexI) (rule to_row_columns [OF refl])
qed

lemma filter_key_once:
  "distinct (map f xs) \<Longrightarrow> x \<in> f ` set xs \<Longrightarrow> length (filter (\<lambda>r. f r = x) xs) = 1"
proof (induction xs)
  case Nil
  then show ?case by simp
next
  case (Cons y ys)
  show ?case
  proof (cases "f y = x")
    case True
    with Cons.prems(1) have "\<forall>r \<in> set ys. f r \<noteq> x"
      by (metis distinct.simps(2) image_eqI list.simps(9) set_map)
    then have "filter (\<lambda>r. f r = x) ys = []"
      by (simp add: filter_empty_conv)
    with True show ?thesis by simp
  next
    case False
    with Cons show ?thesis by auto
  qed
qed

text \<open>After the batch every id of it has one row, whatever rows it had before.\<close>

lemma replace_all_one_row:
  "launch \<in> set batch \<Longrightarrow>
     length (filter (\<lambda>r. row_id r = api_id launch) (replace_all now batch rows)) = 1"
proof -
  assume member: "launch \<in> set batch"
  have "distinct (map row_id (replace_all now batch []))"
    using replace_all_keeps_ids_distinct [of "[]" now batch] by simp
  moreover from member have "api_id launch \<in> row_id ` set (replace_all now batch [])"
    by (simp add: row_ids_replace_all_empty)
  ultimately have "length (filter (\<lambda>r. row_id r = api_id launch) (replace_all now batch [])) = 1"
    by (rule filter_key_once)
  moreover from member
  have "filter (\<lambda>r. row_id r = api_id launch)
          (filter (\<lambda>r. row_id r \<notin> api_id ` set batch) rows) = []"
    by (auto simp: filter_empty_conv)
  ultimately show ?thesis
    by (subst replace_all_split) simp
qed

lemma replace_all_keeps_others:
  "filter (\<lambda>r. row_id r \<notin> api_id ` set batch) (replace_all now batch rows)
     = filter (\<lambda>r. row_id r \<notin> api_id ` set batch) rows"
proof -
  have "filter (\<lambda>r. row_id r \<notin> api_id ` set batch) (replace_all now batch []) = []"
    using row_ids_replace_all_empty [of now batch] by (auto simp: filter_empty_conv)
  then show ?thesis
    by (subst replace_all_split) simp
qed

text \<open>
  C2. With an invalid cache, an upstream answer that carries an array, and both writes
  accepted. For a batch that is not empty, the table afterwards holds exactly one row
  for every id of the batch, whatever it held for that id before; the rows of all
  other ids are the ones it held, in the same order; and for every launch of the batch
  that is the last one with its id, the row of that id carries the columns of the
  INSERT statement computed from that launch, with \<open>created_at\<close> and \<open>updated_at\<close> the
  clock reading of the upsert. The metadata row of the key is
  \<open>(now, now + 30 * 60 * 1000)\<close> for the clock reading of the metadata write, and both
  writes happened. For the empty batch nothing is written. In both cases the response
  is the page cut out of the fetched batch itself, with \<open>count\<close> the size of the batch
  and source \<open>api\<close>.
\<close>

theorem GET_miss_fresh:
  assumes "\<not> isCacheValid (clock_valid e) CACHE_KEY CACHE_TTL_MINUTES d"
      and "upstream e = Body (ResultsArray batch)"
      and "\<not> list_ex (rejects e) batch"
      and "\<not> meta_refused e"
  shows "(batch \<noteq> [] \<longrightarrow>
            (\<forall>launch \<in> set batch.
                length (filter (\<lambda>r. row_id r = api_id launch)
                  (launches (db_after (GET e d limit offset)))) = 1)
          \<and> filter (\<lambda>r. row_id r \<notin> api_id ` set batch)
                (launches (db_after (GET e d limit offset)))
              = filter (\<lambda>r. row_id r \<notin> api_id ` set batch) (launches d)
          \<and> (\<forall>i < length batch.
                (\<forall>j. i < j \<and> j < length batch \<longrightarrow> api_id (batch ! j) \<noteq> api_id (batch ! i)) \<longrightarrow>
                (\<exists>r \<in> set (launches (db_after (GET e d limit offset))).
                   row_id r = api_id (batch ! i)
                   \<and> row_name r = api_name (batch ! i)
                   \<and> row_net r = api_net (batch ! i)
                   \<and> row_window_start r =
                       Some (case api_window_start (batch ! i) of
                               None \<Rightarrow> api_net (batch ! i)
                             | Some s \<Rightarrow> if s = [] then api_net (batch ! i) else s)
                   \<and> row_window_end r =
                       Some (case api_window_end (batch ! i) of
                               None \<Rightarrow> api_net (batch ! i)
                             | Some s \<Rightarrow> if s = [] then api_net (batch ! i) else s)
                   \<and> row_status_id r = (case api_status (batch ! i) of None \<Rightarrow> 0 | Some s \<Rightarrow> st_id s)
                   \<and> row_status_name r =
                       (case api_status (batch ! i) of
                          None \<Rightarrow> ''Unknown''
                        | Some s \<Rightarrow> if st_name s = [] then ''Unknown'' else st_name s)
                   \<and> row_status_abbrev r =
                       (case api_status (batch ! i) of
                          None \<Rightarrow> ''UNK''
                        | Some s \<Rightarrow> if st_abbrev s = [] then ''UNK'' else st_abbrev s)
                   \<and> row_status_description r =
                       (case api_status (batch ! i) of
                          None \<Rightarrow> ''Unknown''
                        | Some s \<Rightarrow> if st_description s = [] then ''Unknown'' else st_description s)
                   \<and> row_lsp_id r =
                       (case api_launch_service_provider (batch ! i) of None \<Rightarrow> 0 | Some p \<Rightarrow> lsp_id p)
                   \<and> row_lsp_name r =
                       (case api_launch_service_provider (batch ! i) of
                          None \<Rightarrow> ''Unknown''
                        | Some p \<Rightarrow> if lsp_name p = [] then ''Unknown'' else lsp_name p)
                   \<and> row_lsp_abbrev r =
                       (case api_launch_service_provider (batch ! i) of
                          None \<Rightarrow> ''UNK''
                        | Some p \<Rightarrow> if lsp_abbrev p = [] then ''UNK'' else lsp_abbrev p)
                   \<and> row_lsp_type r =
                       (case api_launch_service_provider (batch ! i) of
                          None \<Rightarrow> ''Unknown''
                        | Some p \<Rightarrow>
                            (case lsp_type p of
                               TypeString s \<Rightarrow> s
                             | TypeObject n name \<Rightarrow> if name = [] then ''Unknown'' else name))
                   \<and> row_rocket_id r = (case api_rocket (batch ! i) of None \<Rightarrow> 0 | Some k \<Rightarrow> rk_id k)
                   \<and> row_rocket_config_id r =
                       (case api_rocket (batch ! i) of
                          None \<Rightarrow> 0
                        | Some k \<Rightarrow> (case rk_configuration k of None \<Rightarrow> 0 | Some c \<Rightarrow> cfg_id c))
                   \<and> row_rocket_config_name r =
                       (case api_rocket (batch ! i) of
                          None \<Rightarrow> ''Unknown''
                        | Some k \<Rightarrow>
                            (case rk_configuration k of
                               None \<Rightarrow> ''Unknown''
                             | Some c \<Rightarrow> if cfg_name c = [] then ''Unknown'' else cfg_name c))
                   \<and> row_rocket_config_full_name r =
                       (case api_rocket (batch ! i) of
                          None \<Rightarrow> ''Unknown''
                        | Some k \<Rightarrow>
                            (case rk_configuration k of
                               None \<Rightarrow> ''Unknown''
                             | Some c \<Rightarrow> if cfg_full_name c = [] then ''Unknown'' else cfg_full_name c))
                   \<and> row_rocket_config_variant r =
                       (case api_rocket (batch ! i) of
                          None \<Rightarrow> []
                        | Some k \<Rightarrow> (case rk_configuration k of None \<Rightarrow> [] | Some c \<Rightarrow> cfg_variant c))
                   \<and> row_mission_id r = (case api_mission (batch ! i) of None \<Rightarrow> 0 | Some m \<Rightarrow> ms_id m)
                   \<and> row_mission_name r =
                       (case api_mission (batch ! i) of
                          None \<Rightarrow> ''Unknown''
                        | Some m \<Rightarrow> if ms_name m = [] then ''Unknown'' else ms_name m)
                   \<and> row_mission_description r =
                       (case api_mission (batch ! i) of
                          None \<Rightarrow> None
                        | Some m \<Rightarrow>
                            (case ms_description m of
                               None \<Rightarrow> None
                             | Some s \<Rightarrow> if s = [] then None else Some s))
                   \<and> row_mission_type r =
                       (case api_mission (batch ! i) of
                          None \<Rightarrow> ''Unknown''
                        | Some m \<Rightarrow>
                            (case ms_type m of
                               TypeString s \<Rightarrow> s
                             | TypeObject n name \<Rightarrow> if name = [] then ''Unknown'' else name))
                   \<and> row_image_id r =
                       (case api_image (batch ! i) of
                          None \<Rightarrow> None
                        | Some g \<Rightarrow> if img_id g = 0 then None else Some (img_id g))
                   \<and> row_image_name r =
                       (case api_image (batch ! i) of
                          None \<Rightarrow> None
                        | Some g \<Rightarrow> if img_name g = [] then None else Some (img_name g))
                   \<and> row_image_url r =
                       (case api_image (batch ! i) of
                          None \<Rightarrow> None
                        | Some g \<Rightarrow> if img_image_url g = [] then None else Some (img_image_url g))
                   \<and> row_image_thumbnail_url r =
                       (case api_image (batch ! i) of
                          None \<Rightarrow> None
                        | Some g \<Rightarrow> if img_thumbnail_url g = [] then None else Some (img_thumbnail_url g))
                   \<and> row_image_credit r =
                       (case api_image (batch ! i) of
                          None \<Rightarrow> None
                        | Some g \<Rightarrow> if img_credit g = [] then None else Some (img_credit g))
                   \<and> row_created_at r = (clock_upsert e)
                   \<and> row_updated_at r = (clock_upsert e)))
          \<and> launches (db_after (GET e d limit offset))
              = replace_all (clock_upsert e) batch (launches d)
          \<and> (\<forall>launch \<in> set batch.
                \<exists>r \<in> set (launches (db_after (GET e d limit offset))). row_id r = api_id launch)
          \<and> (distinct (map api_id batch) \<longrightarrow>
                (\<forall>launch \<in> set batch.
                   to_row (clock_upsert e) launch \<in> set (launches (db_after (GET e d limit offset)))))
          \<and> cache_meta (db_after (GET e d limit offset))
              = (cache_meta d)(CACHE_KEY \<mapsto>
                   \<lparr>last_updated = clock_meta e,
                    expires_at = clock_meta e + CACHE_TTL_MINUTES * 60 * 1000\<rparr>)
          \<and> events (GET e d limit offset) = [CalledUpstream, WroteRecords, WroteMetadata])
       \<and> (batch = [] \<longrightarrow>
            db_after (GET e d limit offset) = d
          \<and> events (GET e d limit offset) = [CalledUpstream])
       \<and> (case response (GET e d limit offset) of
            ServerError message err \<Rightarrow> False
          | Json body \<Rightarrow>
              results body = slice batch offset (offset + limit)
            \<and> count body = length batch
            \<and> source body = Api
            \<and> \<not> cached body)
       \<and> (0 \<le> offset \<and> 0 \<le> limit \<longrightarrow>
            slice batch offset (offset + limit) = take (nat limit) (drop (nat offset) batch))"
proof -
  let ?rows = "replace_all (clock_upsert e) batch (launches d)"
  have answer: "case response (GET e d limit offset) of
            ServerError message err \<Rightarrow> False
          | Json body \<Rightarrow>
              results body = slice batch offset (offset + limit)
            \<and> count body = length batch
            \<and> source body = Api
            \<and> \<not> cached body"
    using assms
    by (cases "batch = []") (simp_all add: GET_def GET_try_def Let_def cache_fresh_data_ok)
  have window: "0 \<le> offset \<and> 0 \<le> limit \<longrightarrow>
      slice batch offset (offset + limit) = take (nat limit) (drop (nat offset) batch)"
    by (simp add: slice_window)
  have untouched: "batch = [] \<longrightarrow>
      db_after (GET e d limit offset) = d \<and> events (GET e d limit offset) = [CalledUpstream]"
  proof
    assume "batch = []"
    with assms show "db_after (GET e d limit offset) = d
        \<and> events (GET e d limit offset) = [CalledUpstream]"
      by (simp add: GET_def GET_try_def Let_def)
  qed
  have written: "batch \<noteq> [] \<longrightarrow>
            (\<forall>launch \<in> set batch.
                length (filter (\<lambda>r. row_id r = api_id launch)
                  (launches (db_after (GET e d limit offset)))) = 1)
          \<and> filter (\<lambda>r. row_id r \<notin> api_id ` set batch)
                (launches (db_after (GET e d limit offset)))
              = filter (\<lambda>r. row_id r \<notin> api_id ` set batch) (launches d)
          \<and> (\<forall>i < length batch.
                (\<forall>j. i < j \<and> j < length batch \<longrightarrow> api_id (batch ! j) \<noteq> api_id (batch ! i)) \<longrightarrow>
                (\<exists>r \<in> set (launches (db_after (GET e d limit offset))).
                   row_id r = api_id (batch ! i)
                   \<and> row_name r = api_name (batch ! i)
                   \<and> row_net r = api_net (batch ! i)
                   \<and> row_window_start r =
                       Some (case api_window_start (batch ! i) of
                               None \<Rightarrow> api_net (batch ! i)
                             | Some s \<Rightarrow> if s = [] then api_net (batch ! i) else s)
                   \<and> row_window_end r =
                       Some (case api_window_end (batch ! i) of
                               None \<Rightarrow> api_net (batch ! i)
                             | Some s \<Rightarrow> if s = [] then api_net (batch ! i) else s)
                   \<and> row_status_id r = (case api_status (batch ! i) of None \<Rightarrow> 0 | Some s \<Rightarrow> st_id s)
                   \<and> row_status_name r =
                       (case api_status (batch ! i) of
                          None \<Rightarrow> ''Unknown''
                        | Some s \<Rightarrow> if st_name s = [] then ''Unknown'' else st_name s)
                   \<and> row_status_abbrev r =
                       (case api_status (batch ! i) of
                          None \<Rightarrow> ''UNK''
                        | Some s \<Rightarrow> if st_abbrev s = [] then ''UNK'' else st_abbrev s)
                   \<and> row_status_description r =
                       (case api_status (batch ! i) of
                          None \<Rightarrow> ''Unknown''
                        | Some s \<Rightarrow> if st_description s = [] then ''Unknown'' else st_description s)
                   \<and> row_lsp_id r =
                       (case api_launch_service_provider (batch ! i) of None \<Rightarrow> 0 | Some p \<Rightarrow> lsp_id p)
                   \<and> row_lsp_name r =
                       (case api_launch_service_provider (batch ! i) of
                          None \<Rightarrow> ''Unknown''
                        | Some p \<Rightarrow> if lsp_name p = [] then ''Unknown'' else lsp_name p)
                   \<and> row_lsp_abbrev r =
                       (case api_launch_service_provider (batch ! i) of
                          None \<Rightarrow> ''UNK''
                        | Some p \<Rightarrow> if lsp_abbrev p = [] then ''UNK'' else lsp_abbrev p)
                   \<and> row_lsp_type r =
                       (case api_launch_service_provider (batch ! i) of
                          None \<Rightarrow> ''Unknown''
                        | Some p \<Rightarrow>
                            (case lsp_type p of
                               TypeString s \<Rightarrow> s
                             | TypeObject n name \<Rightarrow> if name = [] then ''Unknown'' else name))
                   \<and> row_rocket_id r = (case api_rocket (batch ! i) of None \<Rightarrow> 0 | Some k \<Rightarrow> rk_id k)
                   \<and> row_rocket_config_id r =
                       (case api_rocket (batch ! i) of
                          None \<Rightarrow> 0
                        | Some k \<Rightarrow> (case rk_configuration k of None \<Rightarrow> 0 | Some c \<Rightarrow> cfg_id c))
                   \<and> row_rocket_config_name r =
                       (case api_rocket (batch ! i) of
                          None \<Rightarrow> ''Unknown''
                        | Some k \<Rightarrow>
                            (case rk_configuration k of
                               None \<Rightarrow> ''Unknown''
                             | Some c \<Rightarrow> if cfg_name c = [] then ''Unknown'' else cfg_name c))
                   \<and> row_rocket_config_full_name r =
                       (case api_rocket (batch ! i) of
                          None \<Rightarrow> ''Unknown''
                        | Some k \<Rightarrow>
                            (case rk_configuration k of
                               None \<Rightarrow> ''Unknown''
                             | Some c \<Rightarrow> if cfg_full_name c = [] then ''Unknown'' else cfg_full_name c))
                   \<and> row_rocket_config_variant r =
                       (case api_rocket (batch ! i) of
                          None \<Rightarrow> []
                        | Some k \<Rightarrow> (case rk_configuration k of None \<Rightarrow> [] | Some c \<Rightarrow> cfg_variant c))
                   \<and> row_mission_id r = (case api_mission (batch ! i) of None \<Rightarrow> 0 | Some m \<Rightarrow> ms_id m)
                   \<and> row_mission_name r =
                       (case api_mission (batch ! i) of
                          None \<Rightarrow> ''Unknown''
                        | Some m \<Rightarrow> if ms_name m = [] then ''Unknown'' else ms_name m)
                   \<and> row_mission_description r =
                       (case api_mission (batch ! i) of
                          None \<Rightarrow> None
                        | Some m \<Rightarrow>
                            (case ms_description m of
                               None \<Rightarrow> None
                             | Some s \<Rightarrow> if s = [] then None else Some s))
                   \<and> row_mission_type r =
                       (case api_mission (batch ! i) of
                          None \<Rightarrow> ''Unknown''
                        | Some m \<Rightarrow>
                            (case ms_type m of
                               TypeString s \<Rightarrow> s
                             | TypeObject n name \<Rightarrow> if name = [] then ''Unknown'' else name))
                   \<and> row_image_id r =
                       (case api_image (batch ! i) of
                          None \<Rightarrow> None
                        | Some g \<Rightarrow> if img_id g = 0 then None else Some (img_id g))
                   \<and> row_image_name r =
                       (case api_image (batch ! i) of
                          None \<Rightarrow> None
                        | Some g \<Rightarrow> if img_name g = [] then None else Some (img_name g))
                   \<and> row_image_url r =
                       (case api_image (batch ! i) of
                          None \<Rightarrow> None
                        | Some g \<Rightarrow> if img_image_url g = [] then None else Some (img_image_url g))
                   \<and> row_image_thumbnail_url r =
                       (case api_image (batch ! i) of
                          None \<Rightarrow> None
                        | Some g \<Rightarrow> if img_thumbnail_url g = [] then None else Some (img_thumbnail_url g))
                   \<and> row_image_credit r =
                       (case api_image (batch ! i) of
                          None \<Rightarrow> None
                        | Some g \<Rightarrow> if img_credit g = [] then None else Some (img_credit g))
                   \<and> row_created_at r = (clock_upsert e)
                   \<and> row_updated_at r = (clock_upsert e)))
          \<and> launches (db_after (GET e d limit offset))
              = replace_all (clock_upsert e) batch (launches d)
          \<and> (\<forall>launch \<in> set batch.
                \<exists>r \<in> set (launches (db_after (GET e d limit offset))). row_id r = api_id launch)
          \<and> (distinct (map api_id batch) \<longrightarrow>
                (\<forall>launch \<in> set batch.
                   to_row (clock_upsert e) launch \<in> set (launches (db_after (GET e d limit offset)))))
          \<and> cache_meta (db_after (GET e d limit offset))
              = (cache_meta d)(CACHE_KEY \<mapsto>
                   \<lparr>last_updated = clock_meta e,
                    expires_at = clock_meta e + CACHE_TTL_MINUTES * 60 * 1000\<rparr>)
          \<and> events (GET e d limit offset) = [CalledUpstream, WroteRecords, WroteMetadata]"
  proof
    assume "batch \<noteq> []"
    with assms have rows: "launches (db_after (GET e d limit offset)) = ?rows"
      and meta: "cache_meta (db_after (GET e d limit offset))
              = (cache_meta d)(CACHE_KEY \<mapsto>
                   \<lparr>last_updated = clock_meta e,
                    expires_at = clock_meta e + CACHE_TTL_MINUTES * 60 * 1000\<rparr>)"
      and effects: "events (GET e d limit offset) = [CalledUpstream, WroteRecords, WroteMetadata]"
      by (simp_all add: GET_def GET_try_def Let_def cache_fresh_data_ok)
    have once: "\<forall>launch \<in> set batch.
        length (filter (\<lambda>r. row_id r = api_id launch) ?rows) = 1"
      by (simp add: replace_all_one_row)
    have others: "filter (\<lambda>r. row_id r \<notin> api_id ` set batch) ?rows
        = filter (\<lambda>r. row_id r \<notin> api_id ` set batch) (launches d)"
      by (rule replace_all_keeps_others)
    have columns: "\<forall>i < length batch.
        (\<forall>j. i < j \<and> j < length batch \<longrightarrow> api_id (batch ! j) \<noteq> api_id (batch ! i)) \<longrightarrow>
        (\<exists>r \<in> set ?rows.
           row_id r = api_id (batch ! i)
           \<and> row_name r = api_name (batch ! i)
           \<and> row_net r = api_net (batch ! i)
           \<and> row_window_start r =
               Some (case api_window_start (batch ! i) of
                       None \<Rightarrow> api_net (batch ! i)
                     | Some s \<Rightarrow> if s = [] then api_net (batch ! i) else s)
           \<and> row_window_end r =
               Some (case api_window_end (batch ! i) of
                       None \<Rightarrow> api_net (batch ! i)
                     | Some s \<Rightarrow> if s = [] then api_net (batch ! i) else s)
           \<and> row_status_id r = (case api_status (batch ! i) of None \<Rightarrow> 0 | Some s \<Rightarrow> st_id s)
           \<and> row_status_name r =
               (case api_status (batch ! i) of
                  None \<Rightarrow> ''Unknown''
                | Some s \<Rightarrow> if st_name s = [] then ''Unknown'' else st_name s)
           \<and> row_status_abbrev r =
               (case api_status (batch ! i) of
                  None \<Rightarrow> ''UNK''
                | Some s \<Rightarrow> if st_abbrev s = [] then ''UNK'' else st_abbrev s)
           \<and> row_status_description r =
               (case api_status (batch ! i) of
                  None \<Rightarrow> ''Unknown''
                | Some s \<Rightarrow> if st_description s = [] then ''Unknown'' else st_description s)
           \<and> row_lsp_id r =
               (case api_launch_service_provider (batch ! i) of None \<Rightarrow> 0 | Some p \<Rightarrow> lsp_id p)
           \<and> row_lsp_name r =
               (case api_launch_service_provider (batch ! i) of
                  None \<Rightarrow> ''Unknown''
                | Some p \<Rightarrow> if lsp_name p = [] then ''Unknown'' else lsp_name p)
           \<and> row_lsp_abbrev r =
               (case api_launch_service_provider (batch ! i) of
                  None \<Rightarrow> ''UNK''
                | Some p \<Rightarrow> if lsp_abbrev p = [] then ''UNK'' else lsp_abbrev p)
           \<and> row_lsp_type r =
               (case api_launch_service_provider (batch ! i) of
                  None \<Rightarrow> ''Unknown''
                | Some p \<Rightarrow>
                    (case lsp_type p of
                       TypeString s \<Rightarrow> s
                     | TypeObject n name \<Rightarrow> if name = [] then ''Unknown'' else name))
           \<and> row_rocket_id r = (case api_rocket (batch ! i) of None \<Rightarrow> 0 | Some k \<Rightarrow> rk_id k)
           \<and> row_rocket_config_id r =
               (case api_rocket (batch ! i) of
                  None \<Rightarrow> 0
                | Some k \<Rightarrow> (case rk_configuration k of None \<Rightarrow> 0 | Some c \<Rightarrow> cfg_id c))
           \<and> row_rocket_config_name r =
               (case api_rocket (batch ! i) of
                  None \<Rightarrow> ''Unknown''
                | Some k \<Rightarrow>
                    (case rk_configuration k of
                       None \<Rightarrow> ''Unknown''
                     | Some c \<Rightarrow> if cfg_name c = [] then ''Unknown'' else cfg_name c))
           \<and> row_rocket_config_full_name r =
               (case api_rocket (batch ! i) of
                  None \<Rightarrow> ''Unknown''
                | Some k \<Rightarrow>
                    (case rk_configuration k of
                       None \<Rightarrow> ''Unknown''
                     | Some c \<Rightarrow> if cfg_full_name c = [] then ''Unknown'' else cfg_full_name c))
           \<and> row_rocket_config_variant r =
               (case api_rocket (batch ! i) of
                  None \<Rightarrow> []
                | Some k \<Rightarrow> (case rk_configuration k of None \<Rightarrow> [] | Some c \<Rightarrow> cfg_variant c))
           \<and> row_mission_id r = (case api_mission (batch ! i) of None \<Rightarrow> 0 | Some m \<Rightarrow> ms_id m)
           \<and> row_mission_name r =
               (case api_mission (batch ! i) of
                  None \<Rightarrow> ''Unknown''
                | Some m \<Rightarrow> if ms_name m = [] then ''Unknown'' else ms_name m)
           \<and> row_mission_description r =
               (case api_mission (batch ! i) of
                  None \<Rightarrow> None
                | Some m \<Rightarrow>
                    (case ms_description m of
                       None \<Rightarrow> None
                     | Some s \<Rightarrow> if s = [] then None else Some s))
           \<and> row_mission_type r =
               (case api_mission (batch ! i) of
                  None \<Rightarrow> ''Unknown''
                | Some m \<Rightarrow>
                    (case ms_type m of
                       TypeString s \<Rightarrow> s
                     | TypeObject n name \<Rightarrow> if name = [] then ''Unknown'' else name))
           \<and> row_image_id r =
               (case api_image (batch ! i) of
                  None \<Rightarrow> None
                | Some g \<Rightarrow> if img_id g = 0 then None else Some (img_id g))
           \<and> row_image_name r =
               (case api_image (batch ! i) of
                  None \<Rightarrow> None
                | Some g \<Rightarrow> if img_name g = [] then None else Some (img_name g))
           \<and> row_image_url r =
               (case api_image (batch ! i) of
                  None \<Rightarrow> None
                | Some g \<Rightarrow> if img_image_url g = [] then None else Some (img_image_url g))
           \<and> row_image_thumbnail_url r =
               (case api_image (batch ! i) of
                  None \<Rightarrow> None
                | Some g \<Rightarrow> if img_thumbnail_url g = [] then None else Some (img_thumbnail_url g))
           \<and> row_image_credit r =
               (case api_image (batch ! i) of
                  None \<Rightarrow> None
                | Some g \<Rightarrow> if img_credit g = [] then None else Some (img_credit g))
           \<and> row_created_at r = (clock_upsert e)
           \<and> row_updated_at r = (clock_upsert e))"
      by (intro allI impI) (rule replace_all_stores_columns)
    have covered: "\<forall>launch \<in> set batch. \<exists>r \<in> set ?rows. row_id r = api_id launch"
      using replace_all_covers by blast
    have present: "distinct (map api_id batch) \<longrightarrow>
        (\<forall>launch \<in> set batch. to_row (clock_upsert e) launch \<in> set ?rows)"
      by (simp add: replace_all_distinct)
    show "(\<forall>launch \<in> set batch.
                length (filter (\<lambda>r. row_id r = api_id launch)
                  (launches (db_after (GET e d limit offset)))) = 1)
          \<and> filter (\<lambda>r. row_id r \<notin> api_id ` set batch)
                (launches (db_after (GET e d limit offset)))
              = filter (\<lambda>r. row_id r \<notin> api_id ` set batch) (launches d)
          \<and> (\<forall>i < length batch.
                (\<forall>j. i < j \<and> j < length batch \<longrightarrow> api_id (batch ! j) \<noteq> api_id (batch ! i)) \<longrightarrow>
                (\<exists>r \<in> set (launches (db_after (GET e d limit offset))).
                   row_id r = api_id (batch ! i)
                   \<and> row_name r = api_name (batch ! i)
                   \<and> row_net r = api_net (batch ! i)
                   \<and> row_window_start r =
                       Some (case api_window_start (batch ! i) of
                               None \<Rightarrow> api_net (batch ! i)
                             | Some s \<Rightarrow> if s = [] then api_net (batch ! i) else s)
                   \<and> row_window_end r =
                       Some (case api_window_end (batch ! i) of
                               None \<Rightarrow> api_net (batch ! i)
                             | Some s \<Rightarrow> if s = [] then api_net (batch ! i) else s)
                   \<and> row_status_id r = (case api_status (batch ! i) of None \<Rightarrow> 0 | Some s \<Rightarrow> st_id s)
                   \<and> row_status_name r =
                       (case api_status (batch ! i) of
                          None \<Rightarrow> ''Unknown''
                        | Some s \<Rightarrow> if st_name s = [] then ''Unknown'' else st_name s)
                   \<and> row_status_abbrev r =
                       (case api_status (batch ! i) of
                          None \<Rightarrow> ''UNK''
                        | Some s \<Rightarrow> if st_abbrev s = [] then ''UNK'' else st_abbrev s)
                   \<and> row_status_description r =
                       (case api_status (batch ! i) of
                          None \<Rightarrow> ''Unknown''
                        | Some s \<Rightarrow> if st_description s = [] then ''Unknown'' else st_description s)
                   \<and> row_lsp_id r =
                       (case api_launch_service_provider (batch ! i) of None \<Rightarrow> 0 | Some p \<Rightarrow> lsp_id p)
                   \<and> row_lsp_name r =
                       (case api_launch_service_provider (batch ! i) of
                          None \<Rightarrow> ''Unknown''
                        | Some p \<Rightarrow> if lsp_name p = [] then ''Unknown'' else lsp_name p)
                   \<and> row_lsp_abbrev r =
                       (case api_launch_service_provider (batch ! i) of
                          None \<Rightarrow> ''UNK''
                        | Some p \<Rightarrow> if lsp_abbrev p = [] then ''UNK'' else lsp_abbrev p)
                   \<and> row_lsp_type r =
                       (case api_launch_service_provider (batch ! i) of
                          None \<Rightarrow> ''Unknown''
                        | Some p \<Rightarrow>
                            (case lsp_type p of
                               TypeString s \<Rightarrow> s
                             | TypeObject n name \<Rightarrow> if name = [] then ''Unknown'' else name))
                   \<and> row_rocket_id r = (case api_rocket (batch ! i) of None \<Rightarrow> 0 | Some k \<Rightarrow> rk_id k)
                   \<and> row_rocket_config_id r =
                       (case api_rocket (batch ! i) of
                          None \<Rightarrow> 0
                        | Some k \<Rightarrow> (case rk_configuration k of None \<Rightarrow> 0 | Some c \<Rightarrow> cfg_id c))
                   \<and> row_rocket_config_name r =
                       (case api_rocket (batch ! i) of
                          None \<Rightarrow> ''Unknown''
                        | Some k \<Rightarrow>
                            (case rk_configuration k of
                               None \<Rightarrow> ''Unknown''
                             | Some c \<Rightarrow> if cfg_name c = [] then ''Unknown'' else cfg_name c))
                   \<and> row_rocket_config_full_name r =
                       (case api_rocket (batch ! i) of
                          None \<Rightarrow> ''Unknown''
                        | Some k \<Rightarrow>
                            (case rk_configuration k of
                               None \<Rightarrow> ''Unknown''
                             | Some c \<Rightarrow> if cfg_full_name c = [] then ''Unknown'' else cfg_full_name c))
                   \<and> row_rocket_config_variant r =
                       (case api_rocket (batch ! i) of
                          None \<Rightarrow> []
                        | Some k \<Rightarrow> (case rk_configuration k of None \<Rightarrow> [] | Some c \<Rightarrow> cfg_variant c))
                   \<and> row_mission_id r = (case api_mission (batch ! i) of None \<Rightarrow> 0 | Some m \<Rightarrow> ms_id m)
                   \<and> row_mission_name r =
                       (case api_mission (batch ! i) of
                          None \<Rightarrow> ''Unknown''
                        | Some m \<Rightarrow> if ms_name m = [] then ''Unknown'' else ms_name m)
                   \<and> row_mission_description r =
                       (case api_mission (batch ! i) of
                          None \<Rightarrow> None
                        | Some m \<Rightarrow>
                            (case ms_description m of
                               None \<Rightarrow> None
                             | Some s \<Rightarrow> if s = [] then None else Some s))
                   \<and> row_mission_type r =
                       (case api_mission (batch ! i) of
                          None \<Rightarrow> ''Unknown''
                        | Some m \<Rightarrow>
                            (case ms_type m of
                               TypeString s \<Rightarrow> s
                             | TypeObject n name \<Rightarrow> if name = [] then ''Unknown'' else name))
                   \<and> row_image_id r =
                       (case api_image (batch ! i) of
                          None \<Rightarrow> None
                        | Some g \<Rightarrow> if img_id g = 0 then None else Some (img_id g))
                   \<and> row_image_name r =
                       (case api_image (batch ! i) of
                          None \<Rightarrow> None
                        | Some g \<Rightarrow> if img_name g = [] then None else Some (img_name g))
                   \<and> row_image_url r =
                       (case api_image (batch ! i) of
                          None \<Rightarrow> None
                        | Some g \<Rightarrow> if img_image_url g = [] then None else Some (img_image_url g))
                   \<and> row_image_thumbnail_url r =
                       (case api_image (batch ! i) of
                          None \<Rightarrow> None
                        | Some g \<Rightarrow> if img_thumbnail_url g = [] then None else Some (img_thumbnail_url g))
                   \<and> row_image_credit r =
                       (case api_image (batch ! i) of
                          None \<Rightarrow> None
                        | Some g \<Rightarrow> if img_credit g = [] then None else Some (img_credit g))
                   \<and> row_created_at r = (clock_upsert e)
                   \<and> row_updated_at r = (clock_upsert e)))
          \<and> launches (db_after (GET e d limit offset))
              = replace_all (clock_upsert e) batch (launches d)
          \<and> (\<forall>launch \<in> set batch.
                \<exists>r \<in> set (launches (db_after (GET e d limit offset))). row_id r = api_id launch)
          \<and> (distinct (map api_id batch) \<longrightarrow>
                (\<forall>launch \<in> set batch.
                   to_row (clock_upsert e) launch \<in> set (launches (db_after (GET e d limit offset)))))
          \<and> cache_meta (db_after (GET e d limit offset))
              = (cache_meta d)(CACHE_KEY \<mapsto>
                   \<lparr>last_updated = clock_meta e,
                    expires_at = clock_meta e + CACHE_TTL_MINUTES * 60 * 1000\<rparr>)
          \<and> events (GET e d limit offset) = [CalledUpstream, WroteRecords, WroteMetadata]"
      unfolding rows by (intro conjI once others columns refl covered present meta effects)
  qed
  show ?thesis
    by (rule conjI [OF written conjI [OF untouched conjI [OF answer window]]])
qed

lemma cache_fresh_data_cases:
  "cache_fresh_data e batch d =
     (if list_ex (rejects e) batch then
        (d, [], Some (InsertError (api_id (the (find (rejects e) batch)))))
      else if meta_refused e then
        (d\<lparr>launches := replace_all (clock_upsert e) batch (launches d)\<rparr>,
         [WroteRecords], Some MetaWriteError)
      else
        (d\<lparr>launches := replace_all (clock_upsert e) batch (launches d),
           cache_meta := (cache_meta d)(CACHE_KEY \<mapsto>
              \<lparr>last_updated = clock_meta e,
               expires_at = clock_meta e + CACHE_TTL_MINUTES * 60 * 1000\<rparr>)\<rparr>,
         [WroteRecords, WroteMetadata], None))"
proof (cases "find (rejects e) batch")
  case None
  then have "\<not> list_ex (rejects e) batch"
    by (simp add: find_None_iff list_ex_iff)
  then show ?thesis
    by (simp add: cache_fresh_data_ok cache_fresh_data_meta_refused)
next
  case (Some launch)
  then have "list_ex (rejects e) batch"
    by (auto simp: find_Some_iff list_ex_iff)
  with Some show ?thesis
    by (simp add: cache_fresh_data_def upsertLaunches_def insert_all_replace_all)
qed

text \<open>
  C3. With an invalid cache, when the upstream round trip fails (transport, status,
  body or shape) or a write of the fetched batch fails, the metadata table is left as
  it was; unless it was the metadata statement that failed, the whole database is. The
  response is decided by the rows stored at that moment: if there are any it has
  source \<open>stale_cache\<close>, is marked cached, carries a warning that is not empty, and its
  page and \<open>count\<close> are computed from the stored rows by the expressions of the hit path;
  if there are none it is the 500 error \<open>Failed to fetch launch data\<close>.
\<close>

theorem GET_failure_fallback:
  assumes "\<not> isCacheValid (clock_valid e) CACHE_KEY CACHE_TTL_MINUTES d"
      and "upstream_failed (upstream e) \<or> write_failed e"
  shows "cache_meta (db_after (GET e d limit offset)) = cache_meta d
       \<and> (upstream_failed (upstream e) \<or> batch_refused e \<longrightarrow>
            db_after (GET e d limit offset) = d)
       \<and> (launches (db_after (GET e d limit offset)) \<noteq> [] \<longrightarrow>
            (case response (GET e d limit offset) of
               ServerError message err \<Rightarrow> False
             | Json body \<Rightarrow>
                 source body = StaleCache
               \<and> cached body
               \<and> warning body \<noteq> None \<and> warning body \<noteq> Some []
               \<and> results body =
                   convertToApiFormat
                     (slice (getCachedLaunches 100 (db_after (GET e d limit offset)))
                        offset (offset + limit))
               \<and> count body = length (getCachedLaunches 100 (db_after (GET e d limit offset)))))
       \<and> (launches (db_after (GET e d limit offset)) = [] \<longrightarrow>
            (case response (GET e d limit offset) of
               ServerError message err \<Rightarrow> message = ''Failed to fetch launch data''
             | Json body \<Rightarrow> False))"
proof -
  have "\<exists>d1 effects err. GET_try e d limit offset = (d1, effects, Inl err)
      \<and> cache_meta d1 = cache_meta d
      \<and> (upstream_failed (upstream e) \<or> batch_refused e \<longrightarrow> d1 = d)"
  proof (cases "upstream e")
    case (Body field)
    show ?thesis
    proof (cases field)
      case (ResultsArray batch)
      with Body assms show ?thesis
        by (auto simp: GET_try_def Let_def cache_fresh_data_cases write_failed_def
            batch_refused_def)
    qed (use Body assms(1) in \<open>simp_all add: GET_try_def Let_def\<close>)
  qed (use assms(1) in \<open>simp_all add: GET_try_def Let_def\<close>)
  then obtain d1 effects err where run: "GET_try e d limit offset = (d1, effects, Inl err)"
    and kept: "cache_meta d1 = cache_meta d"
      "upstream_failed (upstream e) \<or> batch_refused e \<longrightarrow> d1 = d"
    by blast
  from run have out: "db_after (GET e d limit offset) = d1"
    "response (GET e d limit offset) = GET_catch err d1 limit offset"
    by (simp_all add: GET_def)
  show ?thesis
    unfolding out using kept getCachedLaunches_empty_iff [of d1]
    by (simp add: GET_catch_def Let_def MAX_API_LIMIT_def)
qed

text \<open>
  C6, as the code has it. GET writes the records in a transaction of their own and the
  metadata in a later, separate statement. The effects are: none with a valid cache;
  otherwise the upstream call, followed by both writes when a batch that is not empty
  is accepted, by the record write alone when the metadata statement is then refused,
  and by no write for an empty batch, a refused insert or a failed fetch. So metadata
  is never written without the records, no write leaves the database unchanged, and a
  record write changes the table to the result of the loop; the metadata table changes
  exactly when the metadata write happened.
\<close>

theorem GET_write_through:
  "events (GET e d limit offset) =
     (if isCacheValid (clock_valid e) CACHE_KEY CACHE_TTL_MINUTES d then []
      else CalledUpstream #
        (case upstream e of
           Body (ResultsArray batch) \<Rightarrow>
             (if batch = [] \<or> list_ex (rejects e) batch then []
              else if meta_refused e then [WroteRecords]
              else [WroteRecords, WroteMetadata])
         | other \<Rightarrow> []))
   \<and> (WroteMetadata \<in> set (events (GET e d limit offset)) \<longrightarrow>
        WroteRecords \<in> set (events (GET e d limit offset)))
   \<and> (WroteRecords \<notin> set (events (GET e d limit offset)) \<longrightarrow>
        db_after (GET e d limit offset) = d)
   \<and> (WroteRecords \<in> set (events (GET e d limit offset)) \<longrightarrow>
        (case upstream e of
           Body (ResultsArray batch) \<Rightarrow>
             launches (db_after (GET e d limit offset))
               = replace_all (clock_upsert e) batch (launches d)
         | other \<Rightarrow> False))
   \<and> cache_meta (db_after (GET e d limit offset)) =
        (if WroteMetadata \<in> set (events (GET e d limit offset)) then
           (cache_meta d)(CACHE_KEY \<mapsto>
              \<lparr>last_updated = clock_meta e,
               expires_at = clock_meta e + CACHE_TTL_MINUTES * 60 * 1000\<rparr>)
         else cache_meta d)"
proof (cases "isCacheValid (clock_valid e) CACHE_KEY CACHE_TTL_MINUTES d")
  case True
  then show ?thesis by (simp add: GET_def GET_try_def Let_def)
next
  case invalid: False
  show ?thesis
  proof (cases "upstream e")
    case (Body field)
    show ?thesis
    proof (cases field)
      case (ResultsArray batch)
      with Body invalid show ?thesis
        by (simp add: GET_def GET_try_def Let_def cache_fresh_data_cases)
    qed (use Body invalid in \<open>simp_all add: GET_def GET_try_def Let_def\<close>)
  qed (use invalid in \<open>simp_all add: GET_def GET_try_def Let_def\<close>)
qed








lemma POST_calls_upstream: "\<exists>written. events (POST e d limit offset) = CalledUpstream # written"
proof (cases "upstream e")
  case (Body field)
  show ?thesis
  proof (cases field)
    case (ResultsArray batch)
    with Body show ?thesis
      by (simp add: POST_def Let_def cache_fresh_data_cases)
  qed (use Body in \<open>simp_all add: POST_def Let_def\<close>)
qed (simp_all add: POST_def Let_def)

lemma cache_fresh_data_clock_valid:
  "cache_fresh_data (e\<lparr>clock_valid := t\<rparr>) batch d = cache_fresh_data e batch d"
  by (simp add: cache_fresh_data_cases)

lemma POST_ignores_validity:
  "POST (e\<lparr>clock_valid := t\<rparr>) d limit offset = POST e d limit offset"
proof (cases "upstream e")
  case (Body field)
  show ?thesis
  proof (cases field)
    case (ResultsArray batch)
    with Body show ?thesis
      by (simp add: POST_def Let_def cache_fresh_data_clock_valid)
  qed (use Body in \<open>simp_all add: POST_def Let_def\<close>)
qed (simp_all add: POST_def Let_def)

lemma POST_effects_as_GET:
  assumes "\<not> isCacheValid (clock_valid e) CACHE_KEY CACHE_TTL_MINUTES d"
  shows "db_after (POST e d limit offset) = db_after (GET e d limit offset)
       \<and> events (POST e d limit offset) = events (GET e d limit offset)"
proof (cases "upstream e")
  case (Body field)
  show ?thesis
  proof (cases field)
    case (ResultsArray batch)
    with Body assms show ?thesis
      by (simp add: POST_def GET_def GET_try_def Let_def cache_fresh_data_cases)
  qed (use Body assms in \<open>simp_all add: POST_def GET_def GET_try_def Let_def\<close>)
qed (use assms in \<open>simp_all add: POST_def GET_def GET_try_def Let_def\<close>)

lemma POST_success_as_GET:
  assumes "\<not> isCacheValid (clock_valid e) CACHE_KEY CACHE_TTL_MINUTES d"
      and "upstream e = Body (ResultsArray batch)"
      and "\<not> write_failed e"
  shows "case response (GET e d limit offset) of
           ServerError message err \<Rightarrow> False
         | Json body \<Rightarrow>
             source body = Api
           \<and> response (POST e d limit offset) = Json (body\<lparr>source := ManualRefresh\<rparr>)"
proof (cases "batch = []")
  case True
  with assms show ?thesis
    by (simp add: POST_def GET_def GET_try_def Let_def)
next
  case False
  with assms have "\<not> list_ex (rejects e) batch" "\<not> meta_refused e"
    by (simp_all add: write_failed_def)
  with False assms show ?thesis
    by (simp add: POST_def GET_def GET_try_def Let_def cache_fresh_data_ok)
qed

lemma POST_failure:
  assumes "refresh_throws (upstream e) \<or> write_failed e"
  shows "case response (POST e d limit offset) of
           ServerError message err \<Rightarrow> message = ''Failed to refresh cache''
         | Json body \<Rightarrow> False"
proof (cases "upstream e")
  case (Body field)
  show ?thesis
  proof (cases field)
    case (ResultsArray batch)
    with Body assms show ?thesis
      by (auto simp: POST_def Let_def cache_fresh_data_cases write_failed_def)
  qed (use Body assms in \<open>simp_all add: POST_def Let_def write_failed_def\<close>)
qed (simp_all add: POST_def Let_def)

lemma POST_missing_results:
  assumes "upstream e = Body ResultsAbsent \<or> upstream e = Body ResultsEmptyString"
  shows "db_after (POST e d limit offset) = d
       \<and> (case response (POST e d limit offset) of
            ServerError message err \<Rightarrow> False
          | Json body \<Rightarrow> source body = ManualRefresh \<and> count body = 0 \<and> results body = [])"
  using assms by (auto simp: POST_def Let_def)

text \<open>
  C4, as the code has it. POST calls upstream first, whatever the metadata says, and
  its outcome does not depend on the clock reading of a validity check. Against GET on
  an invalid cache it performs the same writes; when upstream delivers an array and no
  write fails its response is GET's with source \<open>manual_refresh\<close> in place of \<open>api\<close>.
  When the fetch, the body or a write fails it answers with the 500 error
  \<open>Failed to refresh cache\<close> and reads nothing from storage. A body without \<open>results\<close>
  is an empty successful refresh.
\<close>

theorem POST_forced_refresh:
  "take 1 (events (POST e d limit offset)) = [CalledUpstream]
   \<and> POST (e\<lparr>clock_valid := t\<rparr>) d limit offset = POST e d limit offset
   \<and> (\<not> isCacheValid (clock_valid e) CACHE_KEY CACHE_TTL_MINUTES d \<longrightarrow>
        db_after (POST e d limit offset) = db_after (GET e d limit offset)
      \<and> events (POST e d limit offset) = events (GET e d limit offset))
   \<and> (\<not> isCacheValid (clock_valid e) CACHE_KEY CACHE_TTL_MINUTES d
        \<and> \<not> upstream_failed (upstream e) \<and> \<not> write_failed e \<longrightarrow>
        (case response (GET e d limit offset) of
           ServerError message err \<Rightarrow> False
         | Json body \<Rightarrow>
             source body = Api
           \<and> response (POST e d limit offset) = Json (body\<lparr>source := ManualRefresh\<rparr>)))
   \<and> (refresh_throws (upstream e) \<or> write_failed e \<longrightarrow>
        (case response (POST e d limit offset) of
           ServerError message err \<Rightarrow> message = ''Failed to refresh cache''
         | Json body \<Rightarrow> False))
   \<and> (upstream e = Body ResultsAbsent \<or> upstream e = Body ResultsEmptyString \<longrightarrow>
        db_after (POST e d limit offset) = d
      \<and> (case response (POST e d limit offset) of
            ServerError message err \<Rightarrow> False
          | Json body \<Rightarrow> source body = ManualRefresh \<and> count body = 0 \<and> results body = []))"
proof -
  have "take 1 (events (POST e d limit offset)) = [CalledUpstream]"
    using POST_calls_upstream [of e d limit offset] by auto
  moreover have "POST (e\<lparr>clock_valid := t\<rparr>) d limit offset = POST e d limit offset"
    using POST_ignores_validity .
  moreover have "\<not> isCacheValid (clock_valid e) CACHE_KEY CACHE_TTL_MINUTES d
        \<and> \<not> upstream_failed (upstream e) \<and> \<not> write_failed e \<longrightarrow>
        (case response (GET e d limit offset) of
           ServerError message err \<Rightarrow> False
         | Json body \<Rightarrow>
             source body = Api
           \<and> response (POST e d limit offset) = Json (body\<lparr>source := ManualRefresh\<rparr>))"
  proof (intro impI, elim conjE)
    assume a: "\<not> isCacheValid (clock_valid e) CACHE_KEY CACHE_TTL_MINUTES d"
      "\<not> upstream_failed (upstream e)" "\<not> write_failed e"
    from a(2) obtain batch where "upstream e = Body (ResultsArray batch)"
      by (cases "upstream e" rule: upstream_failed.cases) auto
    with a show "case response (GET e d limit offset) of
           ServerError message err \<Rightarrow> False
         | Json body \<Rightarrow>
             source body = Api
           \<and> response (POST e d limit offset) = Json (body\<lparr>source := ManualRefresh\<rparr>)"
      using POST_success_as_GET by blast
  qed
  ultimately show ?thesis
    using POST_effects_as_GET [of e d limit offset] POST_failure [of e d limit offset]
      POST_missing_results [of e d limit offset]
    by blast
qed


section \<open>Concrete runs\<close>

lemma sample_nets:
  "getCachedLaunches 100 db_stale = [to_row 0 launch_a, to_row 0 launch_b]"
  "getCachedLaunches 100 db_fresh = [to_row 0 launch_a, to_row 0 launch_b]"
  by (simp_all add: getCachedLaunches_def db_stale_def db_fresh_def launch_a_def launch_b_def
      sample_launch_def)

lemma sample_validity:
  "isCacheValid (clock_valid env_down) CACHE_KEY CACHE_TTL_MINUTES db_fresh"
  "\<not> isCacheValid (clock_valid env_down) CACHE_KEY CACHE_TTL_MINUTES db_stale"
  "\<not> isCacheValid (clock_valid env_up) CACHE_KEY CACHE_TTL_MINUTES db0"
  "\<not> isCacheValid (clock_valid env_down) CACHE_KEY CACHE_TTL_MINUTES db0"
  "\<not> isCacheValid (clock_valid env_meta_refused) CACHE_KEY CACHE_TTL_MINUTES db0"
  by (simp_all add: isCacheValid_def env_down_def env_up_def env_meta_refused_def db_fresh_def
      db_stale_def db0_def)

theorem GET_hit_witness:
  "db_after (GET env_down db_fresh 1 1) = db_fresh
   \<and> events (GET env_down db_fresh 1 1) = []
   \<and> (case response (GET env_down db_fresh 1 1) of
        ServerError message err \<Rightarrow> False
      | Json body \<Rightarrow>
          results body = [to_api (to_row 0 launch_b)] \<and> count body = 2 \<and> source body = Cache
        \<and> api_id (results body ! 0) = ''b''
        \<and> api_net (results body ! 0) = ''2025-01-08T00:00:00Z'')
   \<and> length (getCachedLaunches 100 db_fresh) = 2"
proof -
  note run = GET_hit [OF sample_validity(1), of 1 1]
  have window: "slice [to_row 0 launch_a, to_row 0 launch_b] 1 2 = [to_row 0 launch_b]"
    by (simp add: slice_def slice_index_def)
  have b: "api_id launch_b = ''b''" "api_net launch_b = ''2025-01-08T00:00:00Z''"
    by (simp_all add: launch_b_def sample_launch_def)
  from run have same: "db_after (GET env_down db_fresh 1 1) = db_fresh"
    by (rule conjunct1)
  from run have quiet: "events (GET env_down db_fresh 1 1) = []"
    by (rule conjunct2 [THEN conjunct1])
  note reply = run [THEN conjunct2, THEN conjunct2, THEN conjunct1]
  have inner: "case response (GET env_down db_fresh 1 1) of
        ServerError message err \<Rightarrow> False
      | Json body \<Rightarrow>
          results body = [to_api (to_row 0 launch_b)] \<and> count body = 2 \<and> source body = Cache
        \<and> api_id (results body ! 0) = ''b''
        \<and> api_net (results body ! 0) = ''2025-01-08T00:00:00Z''"
  proof (cases "response (GET env_down db_fresh 1 1)")
    case (Json body)
    note facts = reply [unfolded Json response.case]
    note entry = facts [THEN conjunct2, THEN conjunct2, THEN conjunct1, THEN spec, of 0]
    have first: "0 < length (slice (getCachedLaunches 100 db_fresh) 1 (1 + 1))"
      by (simp add: sample_nets window)
    from facts [THEN conjunct1]
    have page: "results body = [to_api (to_row 0 launch_b)]"
      by (simp add: sample_nets window convertToApiFormat_def)
    from facts [THEN conjunct2, THEN conjunct2, THEN conjunct2]
    have rest: "count body = 2" "source body = Cache"
      by (simp_all add: sample_nets)
    from entry [THEN mp, OF first, THEN conjunct1]
    have id: "api_id (results body ! 0) = ''b''"
      by (simp add: sample_nets window b)
    from entry [THEN mp, OF first, THEN conjunct2, THEN conjunct2, THEN conjunct1]
    have net: "api_net (results body ! 0) = ''2025-01-08T00:00:00Z''"
      by (simp add: sample_nets window b)
    from page rest id net show ?thesis
      unfolding Json by simp
  next
    case (ServerError message err)
    with reply show ?thesis by simp
  qed
  from run have "length (getCachedLaunches 100 db_fresh) = min 100 (length (launches db_fresh))"
    by (rule conjunct2 [THEN conjunct2, THEN conjunct2, THEN conjunct1])
  then have size: "length (getCachedLaunches 100 db_fresh) = 2"
    by (simp add: db_fresh_def db_stale_def)
  from same quiet inner size show ?thesis by blast
qed

lemma sample_fields:
  "clock_upsert env_up = 1001" "clock_meta env_up = 1002"
  "upstream env_up = Body (ResultsArray [launch_b, launch_a])"
  "rejects env_up = (\<lambda>launch. False)" "\<not> meta_refused env_up"
  "upstream env_meta_refused = Body (ResultsArray [launch_b, launch_a])"
  "rejects env_meta_refused = (\<lambda>launch. False)" "meta_refused env_meta_refused"
  "clock_upsert env_meta_refused = 1001"
  "upstream env_down = FetchRejected"
  "launches db0 = []" "cache_meta db0 = Map.empty"
  "launches db_stale = [to_row 0 launch_b, to_row 0 launch_a]"
  by (simp_all add: env_up_def env_down_def env_meta_refused_def db0_def db_stale_def)

lemma sample_rows:
  "insert_or_replace (to_row 1001 launch_a) (insert_or_replace (to_row 1001 launch_b) [])
     = [to_row 1001 launch_b, to_row 1001 launch_a]"
  "api_id launch_b \<noteq> api_id launch_a"
  by (simp_all add: insert_or_replace_def launch_a_def launch_b_def sample_launch_def)

lemma sample_accepts:
  "\<not> list_ex (rejects env_up) [launch_b, launch_a]"
  by (simp add: sample_fields)

theorem GET_miss_fresh_witness:
  "launches (db_after (GET env_up db0 1 0)) = [to_row 1001 launch_b, to_row 1001 launch_a]
   \<and> cache_meta (db_after (GET env_up db0 1 0)) CACHE_KEY
        = Some \<lparr>last_updated = 1002, expires_at = 1801002\<rparr>
   \<and> events (GET env_up db0 1 0) = [CalledUpstream, WroteRecords, WroteMetadata]
   \<and> (case response (GET env_up db0 1 0) of
        ServerError message err \<Rightarrow> False
      | Json body \<Rightarrow> results body = [launch_b] \<and> count body = 2 \<and> source body = Api)
   \<and> (\<exists>r \<in> set (launches (db_after (GET env_up db0 1 0))).
        row_id r = ''a'' \<and> row_name r = ''Test flight'' \<and> row_net r = ''2025-01-01T00:00:00Z''
      \<and> row_status_name r = ''Unknown'' \<and> row_created_at r = 1001)"
proof -
  note run = GET_miss_fresh [OF sample_validity(3) sample_fields(3) sample_accepts sample_fields(5), of 1 0]
  have filled: "[launch_b, launch_a] \<noteq> []" by simp
  note written = run [THEN conjunct1, THEN mp, OF filled]
  note columns = written [THEN conjunct2, THEN conjunct2, THEN conjunct1]
  note tail = written [THEN conjunct2, THEN conjunct2, THEN conjunct2]
  from tail have rows: "launches (db_after (GET env_up db0 1 0))
      = [to_row 1001 launch_b, to_row 1001 launch_a]"
    by (simp add: sample_fields sample_rows)
  from tail have meta: "cache_meta (db_after (GET env_up db0 1 0)) CACHE_KEY
        = Some \<lparr>last_updated = 1002, expires_at = 1801002\<rparr>"
    by (simp add: sample_fields CACHE_TTL_MINUTES_def)
  from tail have effects: "events (GET env_up db0 1 0) = [CalledUpstream, WroteRecords, WroteMetadata]"
    by simp
  note answer = run [THEN conjunct2, THEN conjunct2, THEN conjunct1]
  have reply: "case response (GET env_up db0 1 0) of
        ServerError message err \<Rightarrow> False
      | Json body \<Rightarrow> results body = [launch_b] \<and> count body = 2 \<and> source body = Api"
  proof (cases "response (GET env_up db0 1 0)")
    case (Json body)
    with answer show ?thesis by (simp add: slice_def slice_index_def)
  next
    case (ServerError message err)
    with answer show ?thesis by simp
  qed
  have last: "(1::nat) < length [launch_b, launch_a]"
    "\<forall>j. 1 < j \<and> j < length [launch_b, launch_a]
        \<longrightarrow> api_id ([launch_b, launch_a] ! j) \<noteq> api_id ([launch_b, launch_a] ! 1)"
    by simp_all
  from columns [THEN spec, THEN mp, OF last(1), THEN mp, OF last(2)]
  obtain r where "r \<in> set (launches (db_after (GET env_up db0 1 0)))"
    and "row_id r = api_id ([launch_b, launch_a] ! 1)"
    and "row_name r = api_name ([launch_b, launch_a] ! 1)"
    and "row_net r = api_net ([launch_b, launch_a] ! 1)"
    and "row_status_name r =
       (case api_status ([launch_b, launch_a] ! 1) of
          None \<Rightarrow> ''Unknown''
        | Some s \<Rightarrow> if st_name s = [] then ''Unknown'' else st_name s)"
    and "row_created_at r = clock_upsert env_up"
    by blast
  then have stored: "\<exists>r \<in> set (launches (db_after (GET env_up db0 1 0))).
        row_id r = ''a'' \<and> row_name r = ''Test flight'' \<and> row_net r = ''2025-01-01T00:00:00Z''
      \<and> row_status_name r = ''Unknown'' \<and> row_created_at r = 1001"
    by (intro bexI [of _ r]) (simp_all add: launch_a_def sample_launch_def sample_fields)
  from rows meta effects reply stored show ?thesis by blast
qed

lemma down_failed: "upstream_failed (upstream env_down) \<or> write_failed env_down"
  by (simp add: sample_fields)

theorem GET_failure_fallback_witness:
  "db_after (GET env_down db_stale 1 0) = db_stale
   \<and> (case response (GET env_down db_stale 1 0) of
        ServerError message err \<Rightarrow> False
      | Json body \<Rightarrow>
          source body = StaleCache \<and> cached body \<and> count body = 2
        \<and> results body = [to_api (to_row 0 launch_a)])
   \<and> (case response (GET env_down db0 1 0) of
        ServerError message err \<Rightarrow> message = ''Failed to fetch launch data''
      | Json body \<Rightarrow> False)"
proof -
  note stale = GET_failure_fallback [OF sample_validity(2) down_failed, of 1 0]
  note empty = GET_failure_fallback [OF sample_validity(4) down_failed, of 1 0]
  have window: "slice [to_row 0 launch_a, to_row 0 launch_b] 0 1 = [to_row 0 launch_a]"
    by (simp add: slice_def slice_index_def)
  from stale have same: "db_after (GET env_down db_stale 1 0) = db_stale"
    by (simp add: sample_fields)
  from empty have none: "db_after (GET env_down db0 1 0) = db0"
    by (simp add: sample_fields)
  have "case response (GET env_down db_stale 1 0) of
        ServerError message err \<Rightarrow> False
      | Json body \<Rightarrow>
          source body = StaleCache \<and> cached body \<and> count body = 2
        \<and> results body = [to_api (to_row 0 launch_a)]"
  proof (cases "response (GET env_down db_stale 1 0)")
    case (Json body)
    with stale show ?thesis
      unfolding same by (simp add: sample_fields sample_nets window convertToApiFormat_def)
  next
    case (ServerError message err)
    with stale show ?thesis
      unfolding same by (simp add: sample_fields)
  qed
  moreover from empty have "case response (GET env_down db0 1 0) of
        ServerError message err \<Rightarrow> message = ''Failed to fetch launch data''
      | Json body \<Rightarrow> False"
    unfolding none by (simp add: sample_fields)
  ultimately show ?thesis using same by simp
qed

lemma meta_refused_run:
  "GET env_meta_refused db0 10 0 =
     \<lparr>db_after = db0\<lparr>launches := [to_row 1001 launch_b, to_row 1001 launch_a]\<rparr>,
      events = [CalledUpstream, WroteRecords],
      response = GET_catch MetaWriteError
        (db0\<lparr>launches := [to_row 1001 launch_b, to_row 1001 launch_a]\<rparr>) 10 0\<rparr>"
  by (simp add: GET_def GET_try_def sample_validity cache_fresh_data_cases sample_fields
      sample_rows)

text \<open>
  C6 as stated fails. On an empty database the fetch of two launches succeeds and the
  storage engine refuses the metadata statement: the two rows stay written, and the
  key has no metadata row.
\<close>

theorem GET_write_through_counterexample:
  "launches db0 = []
   \<and> cache_meta db0 CACHE_KEY = None
   \<and> launches (db_after (GET env_meta_refused db0 10 0))
       = [to_row 1001 launch_b, to_row 1001 launch_a]
   \<and> cache_meta (db_after (GET env_meta_refused db0 10 0)) CACHE_KEY = None
   \<and> \<not> write_through_paired (GET env_meta_refused db0 10 0)"
  unfolding meta_refused_run by (simp add: write_through_paired_def sample_fields)

theorem GET_write_through_witness:
  "events (GET env_up db0 10 0) = [CalledUpstream, WroteRecords, WroteMetadata]
   \<and> launches (db_after (GET env_up db0 10 0)) = [to_row 1001 launch_b, to_row 1001 launch_a]
   \<and> cache_meta (db_after (GET env_up db0 10 0)) CACHE_KEY
        = Some \<lparr>last_updated = 1002, expires_at = 1801002\<rparr>
   \<and> events (GET env_meta_refused db0 10 0) = [CalledUpstream, WroteRecords]
   \<and> cache_meta (db_after (GET env_meta_refused db0 10 0)) = cache_meta db0"
proof -
  note up = GET_write_through [of env_up db0 10 0]
  note refused = GET_write_through [of env_meta_refused db0 10 0]
  from up have e1: "events (GET env_up db0 10 0) = [CalledUpstream, WroteRecords, WroteMetadata]"
    by (simp add: sample_validity sample_fields)
  from up e1 have "launches (db_after (GET env_up db0 10 0))
      = [to_row 1001 launch_b, to_row 1001 launch_a]"
    by (simp add: sample_fields sample_rows)
  moreover from up e1 have "cache_meta (db_after (GET env_up db0 10 0)) CACHE_KEY
        = Some \<lparr>last_updated = 1002, expires_at = 1801002\<rparr>"
    by (simp add: sample_fields CACHE_TTL_MINUTES_def)
  moreover from refused
  have e2: "events (GET env_meta_refused db0 10 0) = [CalledUpstream, WroteRecords]"
    by (simp add: sample_validity sample_fields)
  moreover from refused e2
  have "cache_meta (db_after (GET env_meta_refused db0 10 0)) = cache_meta db0"
    by simp
  ultimately show ?thesis using e1 by simp
qed




text \<open>
  C4 as stated fails. With two rows stored and upstream unreachable, GET answers from
  the stale rows; POST answers with the 500 error and reads nothing.
\<close>

theorem POST_no_fallback_counterexample:
  "(case response (GET env_down db_stale 10 0) of
      ServerError message err \<Rightarrow> False
    | Json body \<Rightarrow> source body = StaleCache \<and> count body = 2)
   \<and> response (POST env_down db_stale 10 0) = ServerError ''Failed to refresh cache'' NetworkError"
  by (simp add: GET_def GET_try_def GET_catch_def POST_def sample_validity sample_fields
      sample_nets MAX_API_LIMIT_def)

theorem POST_forced_refresh_witness:
  "take 1 (events (POST env_up db0 1 0)) = [CalledUpstream]
   \<and> db_after (POST env_up db0 1 0) = db_after (GET env_up db0 1 0)
   \<and> events (POST env_up db0 1 0) = events (GET env_up db0 1 0)
   \<and> (case response (GET env_up db0 1 0) of
        ServerError message err \<Rightarrow> False
      | Json body \<Rightarrow>
          source body = Api
        \<and> response (POST env_up db0 1 0) = Json (body\<lparr>source := ManualRefresh\<rparr>))
   \<and> (case response (POST env_down db_stale 1 0) of
        ServerError message err \<Rightarrow> message = ''Failed to refresh cache''
      | Json body \<Rightarrow> False)"
proof -
  note up = POST_forced_refresh [where e = env_up and d = db0 and limit = 1 and offset = 0
      and t = 0]
  note down = POST_forced_refresh [where e = env_down and d = db_stale and limit = 1
      and offset = 0 and t = 0]
  have ok: "\<not> upstream_failed (upstream env_up)" "\<not> write_failed env_up"
    by (simp_all add: sample_fields write_failed_def)
  have thrown: "refresh_throws (upstream env_down) \<or> write_failed env_down"
    by (simp add: sample_fields)
  from up sample_validity(3) ok
  have fresh: "take 1 (events (POST env_up db0 1 0)) = [CalledUpstream]
     \<and> db_after (POST env_up db0 1 0) = db_after (GET env_up db0 1 0)
     \<and> events (POST env_up db0 1 0) = events (GET env_up db0 1 0)
     \<and> (case response (GET env_up db0 1 0) of
          ServerError message err \<Rightarrow> False
        | Json body \<Rightarrow>
            source body = Api
          \<and> response (POST env_up db0 1 0) = Json (body\<lparr>source := ManualRefresh\<rparr>))"
    by blast
  from down thrown
  have failed: "case response (POST env_down db_stale 1 0) of
        ServerError message err \<Rightarrow> message = ''Failed to refresh cache''
      | Json body \<Rightarrow> False"
    by blast
  from fresh failed show ?thesis by blast
qed

section \<open>Properties of the histogram\<close>

lemma filter_split_sorted:
  fixes f :: "'a \<Rightarrow> int"
  assumes "a \<le> b"
  shows "sorted (map f xs) \<Longrightarrow>
     filter (\<lambda>x. a \<le> f x \<and> f x < b) xs @ filter (\<lambda>x. b \<le> f x) xs
       = filter (\<lambda>x. a \<le> f x) xs"
proof (induction xs)
  case Nil
  show ?case by simp
next
  case (Cons x xs)
  then have ih: "filter (\<lambda>x. a \<le> f x \<and> f x < b) xs @ filter (\<lambda>x. b \<le> f x) xs
       = filter (\<lambda>x. a \<le> f x) xs"
    by simp
  show ?case
  proof (cases "b \<le> f x")
    case True
    with Cons.prems have "\<forall>y \<in> set xs. b \<le> f y" by auto
    then have "filter (\<lambda>x. a \<le> f x \<and> f x < b) xs = []"
      by (auto simp: filter_empty_conv)
    with ih True assms show ?thesis by simp
  next
    case False
    with ih show ?thesis by simp
  qed
qed

text \<open>
  When seven calendar days always lead to a later time the loop ends, and what it
  adds to \<open>buckets\<close> is the chain of weeks from \<open>currentDate\<close>.
\<close>

lemma make_buckets_chain:
  assumes "\<forall>t. t < plus7days t"
  shows "\<exists>added. make_buckets plus7days time xs lastDate acc currentDate = Some (acc @ added)
           \<and> week_chain plus7days time xs lastDate currentDate added"
proof (induction "nat (lastDate + 1 - currentDate)" arbitrary: currentDate acc rule: less_induct)
  case less
  show ?case
  proof (cases "currentDate \<le> lastDate")
    case True
    let ?bucket = "\<lparr>startDate = currentDate,
        endDate = plus7days currentDate,
        bucket_count =
          length (filter (\<lambda>launch. time launch \<ge> currentDate
            \<and> time launch < plus7days currentDate) xs),
        launchIds =
          map api_id (filter (\<lambda>launch. time launch \<ge> currentDate
            \<and> time launch < plus7days currentDate) xs)\<rparr>"
    from assms have "currentDate < plus7days currentDate" by simp
    with True have "nat (lastDate + 1 - plus7days currentDate) < nat (lastDate + 1 - currentDate)"
      by simp
    from less [OF this, of "acc @ [?bucket]"]
    obtain added where run: "make_buckets plus7days time xs lastDate (acc @ [?bucket])
          (plus7days currentDate) = Some ((acc @ [?bucket]) @ added)"
      and chain: "week_chain plus7days time xs lastDate (plus7days currentDate) added"
      by blast
    from True run have "make_buckets plus7days time xs lastDate acc currentDate
        = Some (acc @ ?bucket # added)"
      by (subst make_buckets.simps) simp
    moreover from True chain
    have "week_chain plus7days time xs lastDate currentDate (?bucket # added)"
      by simp
    ultimately show ?thesis by blast
  next
    case False
    then have "make_buckets plus7days time xs lastDate acc currentDate = Some (acc @ [])"
      by (subst make_buckets.simps) simp
    moreover from False have "week_chain plus7days time xs lastDate currentDate []"
      by simp
    ultimately show ?thesis by blast
  qed
qed

lemma week_chain_concat:
  assumes "\<forall>t. t < plus7days t"
      and "sorted (map time xs)"
      and "\<forall>x \<in> set xs. time x \<le> lastDate"
  shows "week_chain plus7days time xs lastDate currentDate bs \<Longrightarrow>
     concat (map launchIds bs) = map api_id (filter (\<lambda>x. currentDate \<le> time x) xs)"
proof (induction bs arbitrary: currentDate)
  case Nil
  then have "lastDate < currentDate" by simp
  with assms(3) have "filter (\<lambda>x. currentDate \<le> time x) xs = []"
    by (auto simp: filter_empty_conv)
  then show ?case by simp
next
  case (Cons b bs)
  from Cons.prems have ids: "launchIds b
      = map api_id (filter (\<lambda>x. currentDate \<le> time x \<and> time x < plus7days currentDate) xs)"
    and rest: "week_chain plus7days time xs lastDate (plus7days currentDate) bs"
    by simp_all
  from assms(1) have "currentDate \<le> plus7days currentDate"
    by (simp add: less_imp_le)
  from filter_split_sorted [OF this assms(2)]
  have "filter (\<lambda>x. currentDate \<le> time x \<and> time x < plus7days currentDate) xs
          @ filter (\<lambda>x. plus7days currentDate \<le> time x) xs
        = filter (\<lambda>x. currentDate \<le> time x) xs" .
  with Cons.IH [OF rest] ids show ?case
    by (simp flip: map_append)
qed

lemma week_chain_nth:
  "week_chain plus7days time xs lastDate currentDate bs \<Longrightarrow> i < length bs \<Longrightarrow>
     startDate (bs ! i) = (plus7days ^^ i) currentDate
   \<and> endDate (bs ! i) = plus7days (startDate (bs ! i))
   \<and> launchIds (bs ! i)
       = map api_id (filter (\<lambda>x. startDate (bs ! i) \<le> time x \<and> time x < endDate (bs ! i)) xs)
   \<and> bucket_count (bs ! i) = length (launchIds (bs ! i))"
proof (induction bs arbitrary: currentDate i)
  case Nil
  then show ?case by simp
next
  case (Cons b bs)
  show ?case
  proof (cases i)
    case 0
    with Cons.prems show ?thesis by simp
  next
    case (Suc k)
    with Cons.prems have "week_chain plus7days time xs lastDate (plus7days currentDate) bs"
      "k < length bs"
      by simp_all
    from Cons.IH [OF this] Suc show ?thesis
      by (simp add: funpow_swap1)
  qed
qed

lemma concat_member_index:
  "x \<in> set (concat xss) \<Longrightarrow> \<exists>i < length xss. x \<in> set (xss ! i)"
  by (induction xss) (auto simp: nth_Cons split: nat.splits)

lemma distinct_concat_unique:
  "distinct (concat xss) \<Longrightarrow> i < length xss \<Longrightarrow> j < length xss \<Longrightarrow>
     x \<in> set (xss ! i) \<Longrightarrow> x \<in> set (xss ! j) \<Longrightarrow> i = j"
proof (induction xss arbitrary: i j)
  case Nil
  then show ?case by simp
next
  case (Cons xs xss)
  show ?case
  proof (cases i)
    case i0: 0
    show ?thesis
    proof (cases j)
      case 0
      with i0 show ?thesis by simp
    next
      case (Suc j')
      with Cons.prems i0 have "x \<in> set xs" "x \<in> set (concat xss)" by auto
      with Cons.prems(1) show ?thesis by auto
    qed
  next
    case (Suc i')
    show ?thesis
    proof (cases j)
      case 0
      with Cons.prems Suc have "x \<in> set xs" "x \<in> set (concat xss)" by auto
      with Cons.prems(1) show ?thesis by auto
    next
      case j: (Suc j')
      with Cons.prems Suc Cons.IH [of i' j'] show ?thesis by simp
    qed
  qed
qed

lemma api_id_to_api [simp]: "api_id (to_api r) = row_id r"
  by (simp add: to_api_def)

lemma api_net_to_api [simp]: "api_net (to_api r) = row_net r"
  by (simp add: to_api_def)

lemma cached_launches_ids:
  "distinct (map row_id (launches d)) \<Longrightarrow> distinct (map api_id (cached_launches d))"
proof -
  assume "distinct (map row_id (launches d))"
  then have "distinct (map row_id (sort_key row_net (launches d)))"
    by (simp add: distinct_map)
  then have "distinct (map row_id (take 100 (sort_key row_net (launches d))))"
    by (simp add: take_map [symmetric] del: take_map)
  then show ?thesis
    by (simp add: cached_launches_def convertToApiFormat_def getCachedLaunches_def comp_def)
qed

lemma cached_launches_empty_iff: "cached_launches d = [] \<longleftrightarrow> launches d = []"
  by (cases "launches d")
    (auto simp: cached_launches_def convertToApiFormat_def getCachedLaunches_def)

lemma histogram_run:
  assumes "launches d \<noteq> []"
      and "\<forall>launch \<in> set (cached_launches d). getTime (api_net launch) \<noteq> None"
  shows "histogram getTime plus7days d =
     (case make_buckets plus7days (launch_time getTime)
             (sort_key (launch_time getTime) (cached_launches d))
             (launch_time getTime (last (sort_key (launch_time getTime) (cached_launches d))))
             []
             (launch_time getTime (hd (sort_key (launch_time getTime) (cached_launches d)))) of
        None \<Rightarrow> NoAnswer
      | Some bs \<Rightarrow> Histogram \<lparr>buckets = bs, total_launches = length (cached_launches d)\<rparr>)"
proof -
  from assms(1) have "cached_launches d \<noteq> []"
    by (simp add: cached_launches_empty_iff)
  moreover from assms(2)
  have "\<not> list_ex (\<lambda>launch. getTime (api_net launch) = None) (cached_launches d)"
    by (simp add: list_ex_iff)
  ultimately show ?thesis
    by (simp add: histogram_def Let_def cached_launches_def cong: option.case_cong)
qed

text \<open>
  What holds of the histogram for every store: over the launches the handler reads,
  which are the first 100 in order of \<open>net\<close>, the buckets are a partition. The handler
  answers; there is a first bucket and it starts at the earliest time; every bucket
  ends seven calendar days after its start and the next one starts there; a bucket
  lists the ids of exactly the launches read whose time lies in it, from its start up
  to but not including its end, and its count is the length of that list; the member
  lists, one after the other, are the ids of the launches read in order of time, so
  that each of them is in exactly one bucket; and the counts add up to
  \<open>total_launches\<close>, the number of launches read.
\<close>

lemma histogram_partitions_read:
  assumes "launches d \<noteq> []"
      and "\<forall>launch \<in> set (cached_launches d). getTime (api_net launch) \<noteq> None"
      and "distinct (map row_id (launches d))"
      and "\<forall>t. t < plus7days t"
  shows "case histogram getTime plus7days d of
           UnparsedNet \<Rightarrow> False
         | NoAnswer \<Rightarrow> False
         | Histogram h \<Rightarrow>
             buckets h \<noteq> []
           \<and> startDate (hd (buckets h)) \<in> launch_time getTime ` set (cached_launches d)
           \<and> (\<forall>launch \<in> set (cached_launches d).
                startDate (hd (buckets h)) \<le> launch_time getTime launch)
           \<and> (\<forall>i < length (buckets h).
                startDate (buckets h ! i) = (plus7days ^^ i) (startDate (hd (buckets h)))
              \<and> endDate (buckets h ! i) = plus7days (startDate (buckets h ! i))
              \<and> (Suc i < length (buckets h) \<longrightarrow>
                   startDate (buckets h ! Suc i) = endDate (buckets h ! i))
              \<and> launchIds (buckets h ! i) =
                  map api_id (filter (\<lambda>launch.
                    startDate (buckets h ! i) \<le> launch_time getTime launch
                    \<and> launch_time getTime launch < endDate (buckets h ! i))
                    (sort_key (launch_time getTime) (cached_launches d)))
              \<and> bucket_count (buckets h ! i) = length (launchIds (buckets h ! i)))
           \<and> concat (map launchIds (buckets h))
               = map api_id (sort_key (launch_time getTime) (cached_launches d))
           \<and> (\<forall>launch \<in> set (cached_launches d).
                \<exists>!i. i < length (buckets h) \<and> api_id launch \<in> set (launchIds (buckets h ! i)))
           \<and> sum_list (map bucket_count (buckets h)) = total_launches h
           \<and> total_launches h = length (cached_launches d)"
proof -
  let ?time = "launch_time getTime"
  let ?sorted = "sort_key ?time (cached_launches d)"
  let ?first = "?time (hd ?sorted)"
  let ?last = "?time (last ?sorted)"
  from make_buckets_chain [OF assms(4), of ?time ?sorted ?last "[]" ?first]
  obtain bs where run: "make_buckets plus7days ?time ?sorted ?last [] ?first = Some bs"
    and chain: "week_chain plus7days ?time ?sorted ?last ?first bs"
    by auto
  from assms(1) have "cached_launches d \<noteq> []"
    by (simp add: cached_launches_empty_iff)
  then have nonempty: "?sorted \<noteq> []"
    using length_sort [of ?time "cached_launches d"] by (metis length_0_conv)
  have sorted: "sorted (map ?time ?sorted)" by simp
  have first_least: "\<forall>x \<in> set ?sorted. ?first \<le> ?time x"
    using sorted nonempty by (cases ?sorted) auto
  have last_greatest: "\<forall>x \<in> set ?sorted. ?time x \<le> ?last"
  proof
    fix x assume "x \<in> set ?sorted"
    then obtain k where k: "k < length ?sorted" "?sorted ! k = x"
      by (metis in_set_conv_nth)
    with sorted nonempty have "map ?time ?sorted ! k \<le> map ?time ?sorted ! (length ?sorted - 1)"
      by (intro sorted_nth_mono) auto
    with k nonempty show "?time x \<le> ?last"
      by (simp add: last_conv_nth)
  qed
  from nonempty first_least have order: "?first \<le> ?last"
    using last_in_set [of ?sorted] by blast
  from chain order have start: "bs \<noteq> []" "startDate (hd bs) = ?first"
    by (cases bs; simp)+
  have first_in: "?first \<in> ?time ` set (cached_launches d)"
    using nonempty hd_in_set [of ?sorted] by (simp del: hd_in_set)
  have all: "concat (map launchIds bs) = map api_id ?sorted"
  proof -
    from first_least have "filter (\<lambda>x. ?first \<le> ?time x) ?sorted = ?sorted"
      by (simp add: filter_id_conv)
    with week_chain_concat [OF assms(4) sorted last_greatest chain] show ?thesis by simp
  qed
  have windows: "\<forall>i < length bs.
       startDate (bs ! i) = (plus7days ^^ i) (startDate (hd bs))
     \<and> endDate (bs ! i) = plus7days (startDate (bs ! i))
     \<and> (Suc i < length bs \<longrightarrow> startDate (bs ! Suc i) = endDate (bs ! i))
     \<and> launchIds (bs ! i) =
         map api_id (filter (\<lambda>launch. startDate (bs ! i) \<le> ?time launch
           \<and> ?time launch < endDate (bs ! i)) ?sorted)
     \<and> bucket_count (bs ! i) = length (launchIds (bs ! i))"
  proof (intro allI impI)
    fix i assume i: "i < length bs"
    note here = week_chain_nth [OF chain i]
    have "Suc i < length bs \<longrightarrow> startDate (bs ! Suc i) = endDate (bs ! i)"
    proof
      assume "Suc i < length bs"
      from week_chain_nth [OF chain this] here show "startDate (bs ! Suc i) = endDate (bs ! i)"
        by simp
    qed
    with here start(2) show "startDate (bs ! i) = (plus7days ^^ i) (startDate (hd bs))
     \<and> endDate (bs ! i) = plus7days (startDate (bs ! i))
     \<and> (Suc i < length bs \<longrightarrow> startDate (bs ! Suc i) = endDate (bs ! i))
     \<and> launchIds (bs ! i) =
         map api_id (filter (\<lambda>launch. startDate (bs ! i) \<le> ?time launch
           \<and> ?time launch < endDate (bs ! i)) ?sorted)
     \<and> bucket_count (bs ! i) = length (launchIds (bs ! i))"
      by simp
  qed
  have ids: "distinct (map api_id ?sorted)"
    using cached_launches_ids [OF assms(3)] by (simp add: distinct_map)
  have once: "\<forall>launch \<in> set (cached_launches d).
      \<exists>!i. i < length bs \<and> api_id launch \<in> set (launchIds (bs ! i))"
  proof
    fix launch assume "launch \<in> set (cached_launches d)"
    then have "api_id launch \<in> set (concat (map launchIds bs))"
      unfolding all by simp
    from concat_member_index [OF this]
    obtain i where i: "i < length bs" "api_id launch \<in> set (launchIds (bs ! i))"
      by auto
    have "\<And>j. j < length bs \<Longrightarrow> api_id launch \<in> set (launchIds (bs ! j)) \<Longrightarrow> j = i"
    proof -
      fix j assume j: "j < length bs" "api_id launch \<in> set (launchIds (bs ! j))"
      from ids have "distinct (concat (map launchIds bs))" unfolding all .
      from distinct_concat_unique [OF this, of j i "api_id launch"] i j
      show "j = i" by simp
    qed
    with i show "\<exists>!i. i < length bs \<and> api_id launch \<in> set (launchIds (bs ! i))"
      by blast
  qed
  have counts: "map bucket_count bs = map (length \<circ> launchIds) bs"
    using windows by (auto simp: list_eq_iff_nth_eq)
  have total: "sum_list (map bucket_count bs) = length (cached_launches d)"
  proof -
    have "sum_list (map bucket_count bs) = length (concat (map launchIds bs))"
      unfolding counts by (simp add: length_concat comp_def)
    then show ?thesis unfolding all by simp
  qed
  from first_least have least: "\<forall>launch \<in> set (cached_launches d). ?first \<le> ?time launch"
    by simp
  show ?thesis
    unfolding histogram_run [OF assms(1,2)] run
    using start first_in least windows all once total by simp
qed

subsection \<open>Two runs on two stored launches\<close>

lemma sample_cached: "cached_launches db_stale = [to_api (to_row 0 launch_a), to_api (to_row 0 launch_b)]"
  by (simp add: cached_launches_def sample_nets convertToApiFormat_def)

lemma sample_times:
  "launch_time sample_getTime (to_api (to_row 0 launch_a)) = 1735689600000"
  "launch_time sample_getTime (to_api (to_row 0 launch_b)) = 1736294400000"
  "sample_getTime (api_net (to_api (to_row 0 launch_a))) \<noteq> None"
  "sample_getTime (api_net (to_api (to_row 0 launch_b))) \<noteq> None"
  by (simp_all add: launch_time_def sample_getTime_def launch_a_def launch_b_def
      sample_launch_def)

text \<open>On the clock of UTC: two launches a week apart, two buckets.\<close>

lemma sample_histogram:
  "histogram sample_getTime utc_week db_stale = Histogram
     \<lparr>buckets =
        [\<lparr>startDate = 1735689600000, endDate = 1736294400000, bucket_count = 1,
          launchIds = [''a'']\<rparr>,
         \<lparr>startDate = 1736294400000, endDate = 1736899200000, bucket_count = 1,
          launchIds = [''b'']\<rparr>],
      total_launches = 2\<rparr>"
proof -
  have parsed: "\<forall>launch \<in> set (cached_launches db_stale). sample_getTime (api_net launch) \<noteq> None"
    unfolding sample_cached using sample_times(3,4) by simp
  have stored: "launches db_stale \<noteq> []" by (simp add: db_stale_def)
  have ids: "api_id launch_a = ''a''" "api_id launch_b = ''b''"
    by (simp_all add: launch_a_def launch_b_def sample_launch_def)
  show ?thesis
    unfolding histogram_run [OF stored parsed] sample_cached
    by (simp add: sample_times make_buckets.simps utc_week_def WEEK_MS_def ids)
qed

lemma march_cached:
  "cached_launches db_march = [to_api (to_row 0 (sample_launch ''p'' ''2025-03-05T12:00:00Z'')),
                               to_api (to_row 0 (sample_launch ''q'' ''2025-03-12T11:30:00Z''))]"
  by (simp add: cached_launches_def getCachedLaunches_def convertToApiFormat_def db_march_def
      sample_launch_def)

lemma march_times:
  "launch_time sample_getTime (to_api (to_row 0 (sample_launch ''p'' ''2025-03-05T12:00:00Z'')))
     = 1741176000000"
  "launch_time sample_getTime (to_api (to_row 0 (sample_launch ''q'' ''2025-03-12T11:30:00Z'')))
     = 1741779000000"
  "sample_getTime (api_net (to_api (to_row 0 (sample_launch ''p'' ''2025-03-05T12:00:00Z''))))
     \<noteq> None"
  "sample_getTime (api_net (to_api (to_row 0 (sample_launch ''q'' ''2025-03-12T11:30:00Z''))))
     \<noteq> None"
  by (simp_all add: launch_time_def sample_getTime_def sample_launch_def)

text \<open>
  On the clock of New York the week from 5 March 12:00 UTC ends at 11:00 UTC on
  12 March, so a launch at 11:30 UTC that day is in a second bucket; on the clock of
  UTC it is in the first.
\<close>

lemma march_histogram:
  "histogram sample_getTime new_york_week db_march = Histogram
     \<lparr>buckets =
        [\<lparr>startDate = 1741176000000, endDate = 1741777200000, bucket_count = 1,
          launchIds = [''p'']\<rparr>,
         \<lparr>startDate = 1741777200000, endDate = 1742382000000, bucket_count = 1,
          launchIds = [''q'']\<rparr>],
      total_launches = 2\<rparr>"
  "histogram sample_getTime utc_week db_march = Histogram
     \<lparr>buckets =
        [\<lparr>startDate = 1741176000000, endDate = 1741780800000, bucket_count = 2,
          launchIds = [''p'', ''q'']\<rparr>],
      total_launches = 2\<rparr>"
proof -
  have parsed: "\<forall>launch \<in> set (cached_launches db_march). sample_getTime (api_net launch) \<noteq> None"
    unfolding march_cached using march_times(3,4) by simp
  have stored: "launches db_march \<noteq> []" by (simp add: db_march_def)
  have ids: "api_id (sample_launch ''p'' ''2025-03-05T12:00:00Z'') = ''p''"
    "api_id (sample_launch ''q'' ''2025-03-12T11:30:00Z'') = ''q''"
    by (simp_all add: sample_launch_def)
  show "histogram sample_getTime new_york_week db_march = Histogram
     \<lparr>buckets =
        [\<lparr>startDate = 1741176000000, endDate = 1741777200000, bucket_count = 1,
          launchIds = [''p'']\<rparr>,
         \<lparr>startDate = 1741777200000, endDate = 1742382000000, bucket_count = 1,
          launchIds = [''q'']\<rparr>],
      total_launches = 2\<rparr>"
    unfolding histogram_run [OF stored parsed] march_cached
    by (simp add: march_times make_buckets.simps new_york_week_def WEEK_MS_def ids)
  show "histogram sample_getTime utc_week db_march = Histogram
     \<lparr>buckets =
        [\<lparr>startDate = 1741176000000, endDate = 1741780800000, bucket_count = 2,
          launchIds = [''p'', ''q'']\<rparr>],
      total_launches = 2\<rparr>"
    unfolding histogram_run [OF stored parsed] march_cached
    by (simp add: march_times make_buckets.simps utc_week_def WEEK_MS_def ids)
qed

subsection \<open>A store of more than 100 launches\<close>

lemma sort_key_constant: "\<forall>x \<in> set xs. f x = k \<Longrightarrow> sort_key f xs = xs"
proof -
  assume same: "\<forall>x \<in> set xs. f x = k"
  then have "filter (\<lambda>y. f y = k) (sort_key f xs) = sort_key f xs"
    by (simp add: filter_id_conv)
  moreover from same have "filter (\<lambda>y. f y = k) xs = xs"
    by (simp add: filter_id_conv)
  ultimately show ?thesis
    using sort_key_stable [of f k xs] by simp
qed

lemma big_ids:
  "map api_id big_launches = map (\<lambda>n. replicate (Suc n) CHR ''x'') [0..<101]"
  by (simp add: big_launches_def sample_launch_def comp_def)

lemma big_distinct: "distinct (map api_id big_launches)"
  unfolding big_ids by (simp add: distinct_map inj_on_def)

lemma big_nets: "launch \<in> set big_launches \<Longrightarrow> api_net launch = ''2025-01-01T00:00:00Z''"
  by (auto simp: big_launches_def sample_launch_def)

lemma big_length: "length big_launches = 101"
  by (simp add: big_launches_def)

lemma big_rows:
  "launches db_big = map (to_row 1000) (take 100 big_launches)
                       @ map (to_row 2000) (drop 100 big_launches)"
proof -
  have whole: "distinct (map api_id (take 100 big_launches @ drop 100 big_launches))"
    using big_distinct by simp
  then have first: "distinct (map api_id (take 100 big_launches))"
    and second: "distinct (map api_id (drop 100 big_launches))"
    and apart: "api_id ` set (take 100 big_launches) \<inter> api_id ` set (drop 100 big_launches) = {}"
    unfolding map_append distinct_append by simp_all
  have accept: "\<And>batch. find (\<lambda>launch. False) batch = (None :: api_launch option)"
    by (simp add: find_None_iff)
  have one: "launches (after_upsert (\<lambda>launch. False) 1000 (take 100 big_launches) db0)
      = map (to_row 1000) (take 100 big_launches)"
    by (simp add: after_upsert_def store_after_def upsertLaunches_def insert_all_replace_all
        accept replace_all_distinct [OF first] db0_def)
  have kept: "filter (\<lambda>r. row_id r \<notin> api_id ` set (drop 100 big_launches))
        (map (to_row 1000) (take 100 big_launches))
      = map (to_row 1000) (take 100 big_launches)"
    using apart by (auto simp: filter_id_conv)
  show ?thesis
    unfolding db_big_def
    by (simp add: after_upsert_def [of _ 2000] store_after_def upsertLaunches_def
        insert_all_replace_all accept replace_all_distinct [OF second] one kept)
qed

lemma big_read:
  "getCachedLaunches 100 db_big = map (to_row 1000) (take 100 big_launches)"
proof -
  have "\<forall>r \<in> set (launches db_big). row_net r = ''2025-01-01T00:00:00Z''"
    unfolding big_rows using big_nets by (auto dest: in_set_takeD in_set_dropD)
  then have "sort_key row_net (launches db_big) = launches db_big"
    by (rule sort_key_constant)
  then show ?thesis
    by (simp add: getCachedLaunches_def big_rows big_length)
qed

lemma big_cached:
  "cached_launches db_big = map (\<lambda>launch. to_api (to_row 1000 launch)) (take 100 big_launches)"
  by (simp add: cached_launches_def big_read convertToApiFormat_def comp_def)

lemma big_times:
  "launch \<in> set (cached_launches db_big) \<Longrightarrow>
     sample_getTime (api_net launch) = Some 1735689600000
     \<and> launch_time sample_getTime launch = 1735689600000"
  unfolding big_cached using big_nets
  by (auto simp: launch_time_def sample_getTime_def dest: in_set_takeD)

lemma big_histogram:
  "histogram sample_getTime utc_week db_big = Histogram
     \<lparr>buckets =
        [\<lparr>startDate = 1735689600000, endDate = 1736294400000, bucket_count = 100,
          launchIds = map api_id (take 100 big_launches)\<rparr>],
      total_launches = 100\<rparr>"
proof -
  let ?time = "launch_time sample_getTime"
  have stored: "launches db_big \<noteq> []"
    by (simp add: big_rows big_length)
  have parsed: "\<forall>launch \<in> set (cached_launches db_big). sample_getTime (api_net launch) \<noteq> None"
    using big_times by simp
  have size: "length (cached_launches db_big) = 100"
    by (simp add: big_cached big_length)
  then have filled: "cached_launches db_big \<noteq> []" by auto
  have same: "\<forall>launch \<in> set (cached_launches db_big). ?time launch = 1735689600000"
    using big_times by simp
  then have order: "sort_key ?time (cached_launches db_big) = cached_launches db_big"
    by (rule sort_key_constant)
  from filled same have ends: "?time (hd (cached_launches db_big)) = 1735689600000"
    "?time (last (cached_launches db_big)) = 1735689600000"
    by simp_all
  from same have week: "filter (\<lambda>launch. 1735689600000 \<le> ?time launch
      \<and> ?time launch < 1736294400000) (cached_launches db_big) = cached_launches db_big"
    by (simp add: filter_id_conv)
  have ids: "map api_id (cached_launches db_big) = map api_id (take 100 big_launches)"
    by (simp add: big_cached comp_def)
  have "make_buckets utc_week ?time (cached_launches db_big) 1735689600000 [] 1735689600000
      = Some [\<lparr>startDate = 1735689600000, endDate = 1736294400000, bucket_count = 100,
          launchIds = map api_id (take 100 big_launches)\<rparr>]"
    by (simp add: make_buckets.simps utc_week_def WEEK_MS_def week size ids)
  then show ?thesis
    unfolding histogram_run [OF stored parsed] order ends by (simp add: size)
qed

text \<open>
  C10. The store holds 101 launches with distinct ids whose times all parse; the
  ids are those of \<open>big_launches\<close>, the last of them 101 letters long. The handler reads
  100 of them: it answers with one bucket of 100 ids and \<open>total_launches = 100\<close>, and
  the id of the stored launch it did not read is in no bucket.
\<close>

theorem histogram_reads_100:
  "length (launches db_big) = 101
   \<and> distinct (map row_id (launches db_big))
   \<and> list_all (\<lambda>r. sample_getTime (row_net r) = Some 1735689600000) (launches db_big)
   \<and> map row_id (launches db_big) = map api_id big_launches
   \<and> histogram sample_getTime utc_week db_big = Histogram
       \<lparr>buckets =
          [\<lparr>startDate = 1735689600000, endDate = 1736294400000, bucket_count = 100,
            launchIds = map api_id (take 100 big_launches)\<rparr>],
        total_launches = 100\<rparr>
   \<and> replicate 101 CHR ''x'' \<in> set (map row_id (launches db_big))
   \<and> replicate 101 CHR ''x'' \<notin> set (map api_id (take 100 big_launches))"
proof -
  have ids: "map row_id (launches db_big) = map api_id big_launches"
  proof -
    have "map row_id (launches db_big)
        = map api_id (take 100 big_launches) @ map api_id (drop 100 big_launches)"
      by (simp add: big_rows comp_def)
    also have "\<dots> = map api_id (take 100 big_launches @ drop 100 big_launches)"
      by (simp only: map_append)
    finally show ?thesis by simp
  qed
  have size: "length (launches db_big) = 101"
    by (simp add: big_rows big_length)
  have key: "distinct (map row_id (launches db_big))"
    unfolding ids by (rule big_distinct)
  have parsed: "list_all (\<lambda>r. sample_getTime (row_net r) = Some 1735689600000) (launches db_big)"
    unfolding big_rows using big_nets
    by (auto simp: list_all_iff sample_getTime_def dest: in_set_takeD in_set_dropD)
  have stored: "replicate 101 CHR ''x'' \<in> set (map row_id (launches db_big))"
    unfolding ids big_ids set_map
    by (rule image_eqI [of _ _ 100]) (simp_all del: replicate.simps)
  have unread: "replicate 101 CHR ''x'' \<notin> set (map api_id (take 100 big_launches))"
  proof
    assume "replicate 101 CHR ''x'' \<in> set (map api_id (take 100 big_launches))"
    then have "replicate 101 CHR ''x'' \<in> set (take 100 (map api_id big_launches))"
      by (simp add: take_map)
    then obtain n where "n < 100" "replicate 101 CHR ''x'' = replicate (Suc n) CHR ''x''"
      unfolding big_ids by (auto simp del: replicate.simps simp: take_map)
    then have "length (replicate 101 CHR ''x'') = length (replicate (Suc n) CHR ''x'')"
      by simp
    with \<open>n < 100\<close> show False by simp
  qed
  from size key parsed ids big_histogram stored unread show ?thesis
    by (intro conjI)
qed

end
